theory Spec2Isabelle
  imports Main "HOL-Library.Log_Nat" "HOL-Library.AList"
begin

section \<open>Strings\<close>

text \<open>
  A Python \<open>str\<close> is a sequence of Unicode code points. It is modelled as the list of its
  code points (the integers \<open>ord\<close> gives), so that the non-ASCII literals of the generator can be written down and
  \<open>in\<close>, \<open>startswith\<close> and \<open>replace\<close> work on characters as they do in Python. Every
  literal of \<open>parameter_driven_ipo_case_generator.py\<close> that the modelled code reads is
  given below under a name, with a gloss.
\<close>

type_synonym ustr = "int list"

fun startswith :: "ustr \<Rightarrow> ustr \<Rightarrow> bool" where
  \<comment> \<open>\<open>s.startswith(p)\<close>\<close>
  "startswith s [] = True"
| "startswith [] (p # ps) = False"
| "startswith (c # s) (p # ps) = (c = p \<and> startswith s ps)"

fun contains :: "ustr \<Rightarrow> ustr \<Rightarrow> bool" where
  \<comment> \<open>\<open>sub in s\<close> on strings: \<open>contains s sub\<close>\<close>
  "contains [] sub = (sub = [])"
| "contains (c # s) sub = (startswith (c # s) sub \<or> contains s sub)"

function replace :: "ustr \<Rightarrow> ustr \<Rightarrow> ustr \<Rightarrow> ustr" where
  \<comment> \<open>\<open>s.replace(old, new)\<close>: the occurrences of \<open>old\<close> are found from the left and do
      not overlap; an empty \<open>old\<close> matches before every character and at the end.\<close>
  "replace s old new =
     (if old = [] then new @ concat (map (\<lambda>c. c # new) s)
      else if s = [] then []
      else if startswith s old then new @ replace (drop (length old) s) old new
      else hd s # replace (tl s) old new)"
  by pat_completeness auto
termination
  by (relation "measure (\<lambda>(s, old, new). length s)") (auto simp: neq_Nil_conv)

function str_int :: "int \<Rightarrow> ustr" where
  \<comment> \<open>\<open>str(n)\<close> of an integer, as an f-string prints it: decimal, no padding\<close>
  "str_int n =
     (if n < 0 then 0x2D # str_int (- n)
      else if n < 10 then [0x30 + n]
      else str_int (n div 10) @ [0x30 + n mod 10])"
  by pat_completeness auto
termination
  by (relation "measure (\<lambda>n. if n < 0 then nat (- n) + 1 else nat n)") auto

definition s_year :: ustr where \<comment> \<open>nian: year marker\<close>
  "s_year = [0x5E74]"

definition s_month :: ustr where \<comment> \<open>yue: month marker\<close>
  "s_month = [0x6708]"

definition s_day :: ustr where \<comment> \<open>ri: day marker\<close>
  "s_day = [0x65E5]"

definition s_week :: ustr where \<comment> \<open>dang zhou: the week-of qualifier\<close>
  "s_week = [0x5F53, 0x5468]"

definition s_almost_not_started :: ustr where \<comment> \<open>readiness sentinel: almost not started\<close>
  "s_almost_not_started = [0x51E0, 0x4E4E, 0x672A, 0x5F00, 0x59CB]"

definition s_high_readiness :: ustr where \<comment> \<open>high readiness\<close>
  "s_high_readiness = [0x9AD8, 0x51C6, 0x5907, 0x5EA6]"

definition s_medium_readiness :: ustr where \<comment> \<open>medium readiness\<close>
  "s_medium_readiness = [0x4E2D, 0x7B49, 0x51C6, 0x5907, 0x5EA6]"

definition s_low_readiness :: ustr where \<comment> \<open>low readiness\<close>
  "s_low_readiness = [0x4F4E, 0x51C6, 0x5907, 0x5EA6]"

definition s_none :: ustr where \<comment> \<open>wu: the none sentinel of optional_modules\<close>
  "s_none = [0x65E0]"

definition s_structure_llc :: ustr where \<comment> \<open>domestic limited liability company (needs equity reform)\<close>
  "s_structure_llc = [0x5883, 0x5185, 0x6709, 0x9650, 0x8D23, 0x4EFB, 0x516C, 0x53F8, 0x20, 0x28, 0x9700, 0x80A1, 0x6539, 0x29]"

definition s_structure_jsc :: ustr where \<comment> \<open>already a domestic joint-stock company\<close>
  "s_structure_jsc = [0x5DF2, 0x662F, 0x5883, 0x5185, 0x80A1, 0x4EFD, 0x6709, 0x9650, 0x516C, 0x53F8]"

definition s_structure_vie_built :: ustr where \<comment> \<open>red-chip/VIE structure (already built)\<close>
  "s_structure_vie_built = [0x7EA2, 0x7B79, 0x2F, 0x56, 0x49, 0x45, 0x67B6, 0x6784, 0x20, 0x28, 0x5DF2, 0x642D, 0x5EFA, 0x29]"

definition s_structure_vie_todo :: ustr where \<comment> \<open>red-chip/VIE structure (to be built)\<close>
  "s_structure_vie_todo = [0x7EA2, 0x7B79, 0x2F, 0x56, 0x49, 0x45, 0x67B6, 0x6784, 0x20, 0x28, 0x9700, 0x642D, 0x5EFA, 0x29]"

definition s_pace_aggressive :: ustr where \<comment> \<open>pace: (Aggressive)\<close>
  "s_pace_aggressive = [0x6025, 0x901F, 0x63A8, 0x8FDB, 0x20, 0x28, 0x41, 0x67, 0x67, 0x72, 0x65, 0x73, 0x73, 0x69, 0x76, 0x65, 0x29]"

definition s_pace_standard :: ustr where \<comment> \<open>pace: (Standard)\<close>
  "s_pace_standard = [0x6807, 0x51C6, 0x8282, 0x594F, 0x20, 0x28, 0x53, 0x74, 0x61, 0x6E, 0x64, 0x61, 0x72, 0x64, 0x29]"

definition s_pace_cautious :: ustr where \<comment> \<open>pace: (Cautious)\<close>
  "s_pace_cautious = [0x7A33, 0x5065, 0x4FDD, 0x5B88, 0x20, 0x28, 0x43, 0x61, 0x75, 0x74, 0x69, 0x6F, 0x75, 0x73, 0x29]"

definition s_risk_high :: ustr where \<comment> \<open>gao: high\<close>
  "s_risk_high = [0x9AD8]"

definition s_risk_medium :: ustr where \<comment> \<open>zhong: medium\<close>
  "s_risk_medium = [0x4E2D]"

definition s_risk_low :: ustr where \<comment> \<open>di: low\<close>
  "s_risk_low = [0x4F4E]"

definition s_main_board :: ustr where \<comment> \<open>zhu ban: main board\<close>
  "s_main_board = [0x4E3B, 0x677F]"

definition s_gem :: ustr where \<comment> \<open>GEM\<close>
  "s_gem = [0x47, 0x45, 0x4D]"

definition s_fin_two_plus_interim :: ustr where \<comment> \<open>last two full financial years + latest interim period\<close>
  "s_fin_two_plus_interim = [0x6700, 0x8FD1, 0x4E24, 0x4E2A, 0x5B8C, 0x6574, 0x8D22, 0x5E74, 0x20, 0x2B, 0x20, 0x6700, 0x8FD1, 0x4E00, 0x671F, 0x4E2D, 0x671F]"

definition s_fin_three :: ustr where \<comment> \<open>last three full financial years\<close>
  "s_fin_three = [0x6700, 0x8FD1, 0x4E09, 0x4E2A, 0x5B8C, 0x6574, 0x8D22, 0x5E74]"

definition s_fin_three_plus_interim :: ustr where \<comment> \<open>last three full financial years + latest interim period\<close>
  "s_fin_three_plus_interim = [0x6700, 0x8FD1, 0x4E09, 0x4E2A, 0x5B8C, 0x6574, 0x8D22, 0x5E74, 0x20, 0x2B, 0x20, 0x6700, 0x8FD1, 0x4E00, 0x671F, 0x4E2D, 0x671F]"

definition s_core_tasks :: ustr where \<comment> \<open>core_tasks\<close>
  "s_core_tasks = [0x63, 0x6F, 0x72, 0x65, 0x5F, 0x74, 0x61, 0x73, 0x6B, 0x73]"

definition s_equity_reform_tasks :: ustr where \<comment> \<open>equity_reform_tasks\<close>
  "s_equity_reform_tasks = [0x65, 0x71, 0x75, 0x69, 0x74, 0x79, 0x5F, 0x72, 0x65, 0x66, 0x6F, 0x72, 0x6D, 0x5F, 0x74, 0x61, 0x73, 0x6B, 0x73]"

definition s_ws_project_management :: ustr where \<comment> \<open>work-stream: project management\<close>
  "s_ws_project_management = [0x9879, 0x76EE, 0x7BA1, 0x7406]"

definition s_ws_regulatory :: ustr where \<comment> \<open>work-stream: domestic and overseas regulatory approval\<close>
  "s_ws_regulatory = [0x5883, 0x5185, 0x5916, 0x76D1, 0x7BA1, 0x5BA1, 0x6279]"

definition s_ws_equity_reform :: ustr where \<comment> \<open>work-stream: equity reform\<close>
  "s_ws_equity_reform = [0x80A1, 0x6539]"

definition s_task_kickoff :: ustr where \<comment> \<open>task: hold the project kick-off meeting\<close>
  "s_task_kickoff = [0x53EC, 0x5F00, 0x9879, 0x76EE, 0x542F, 0x52A8, 0x4F1A]"

definition s_task_sponsor :: ustr where \<comment> \<open>task: finalise the sponsor and overall coordinator appointment letter and submit it to the Exchange\<close>
  "s_task_sponsor = [0x5B9A, 0x7A3F, 0x4FDD, 0x8350, 0x4EBA, 0x53CA, 0x6574, 0x4F53, 0x534F, 0x8C03, 0x4EBA, 0x59D4, 0x4EFB, 0x51FD, 0x5E76, 0x5448, 0x4EA4, 0x8054, 0x4EA4, 0x6240]"

definition s_task_a1 :: ustr where \<comment> \<open>task: file the A1 application with the Exchange\<close>
  "s_task_a1 = [0x5411, 0x8054, 0x4EA4, 0x6240, 0x9012, 0x4EA4, 0x41, 0x31, 0x7533, 0x8BF7]"

definition s_task_equity_base :: ustr where \<comment> \<open>task: resolve the equity-reform base date, equity incentives etc.\<close>
  "s_task_equity_base = [0x4F5C, 0x51FA, 0x786E, 0x5B9A, 0x80A1, 0x6539, 0x57FA, 0x51C6, 0x65E5, 0x3001, 0x80A1, 0x6743, 0x6FC0, 0x52B1, 0x7B49, 0x51B3, 0x8BAE]"

definition s_task_equity_done :: ustr where \<comment> \<open>task: complete the equity reform (hold the founding meeting)\<close>
  "s_task_equity_done = [0x5B8C, 0x6210, 0x80A1, 0x6539, 0x5DE5, 0x4F5C, 0xFF08, 0x53EC, 0x5F00, 0x521B, 0x7ACB, 0x5927, 0x4F1A, 0xFF09]"

definition s_lead_all :: ustr where \<comment> \<open>lead: everyone\<close>
  "s_lead_all = [0x5168, 0x4F53]"

definition s_lead_sponsor :: ustr where \<comment> \<open>lead: sponsor\<close>
  "s_lead_sponsor = [0x4FDD, 0x8350, 0x4EBA]"

definition s_lead_parties :: ustr where \<comment> \<open>lead: all parties\<close>
  "s_lead_parties = [0x5404, 0x65B9]"

definition s_lead_company_counsel :: ustr where \<comment> \<open>lead: the company and its domestic counsel\<close>
  "s_lead_company_counsel = [0x516C, 0x53F8, 0x3001, 0x516C, 0x53F8, 0x5883, 0x5185, 0x5F8B, 0x5E08]"

definition s_prefix_sponsor :: ustr where \<comment> \<open>prefix: finalise sponsor\<close>
  "s_prefix_sponsor = [0x5B9A, 0x7A3F, 0x4FDD, 0x8350, 0x4EBA]"

definition s_prefix_equity_base :: ustr where \<comment> \<open>prefix: resolve the equity-reform base date\<close>
  "s_prefix_equity_base = [0x4F5C, 0x51FA, 0x786E, 0x5B9A, 0x80A1, 0x6539, 0x57FA, 0x51C6, 0x65E5]"

definition s_prefix_equity_done :: ustr where \<comment> \<open>prefix: complete the equity reform\<close>
  "s_prefix_equity_done = [0x5B8C, 0x6210, 0x80A1, 0x6539, 0x5DE5, 0x4F5C]"

definition s_prefix_a1 :: ustr where \<comment> \<open>prefix: file the A1 application with the Exchange\<close>
  "s_prefix_a1 = [0x5411, 0x8054, 0x4EA4, 0x6240, 0x9012, 0x4EA4, 0x41, 0x31, 0x7533, 0x8BF7]"

definition s_review_passed :: ustr where \<comment> \<open>review_passed\<close>
  "s_review_passed = [0x72, 0x65, 0x76, 0x69, 0x65, 0x77, 0x5F, 0x70, 0x61, 0x73, 0x73, 0x65, 0x64]"

definition s_summary :: ustr where \<comment> \<open>summary\<close>
  "s_summary = [0x73, 0x75, 0x6D, 0x6D, 0x61, 0x72, 0x79]"

definition s_llm_disabled :: ustr where \<comment> \<open>LLM not enabled\<close>
  "s_llm_disabled = [0x4C, 0x4C, 0x4D, 0x672A, 0x542F, 0x7528]"

definition s_llm_failed :: ustr where \<comment> \<open>LLM call failed: \<close>
  "s_llm_failed = [0x4C, 0x4C, 0x4D, 0x8C03, 0x7528, 0x5931, 0x8D25, 0x3A, 0x20]"

definition s_case1 :: ustr where \<comment> \<open>Case1\<close>
  "s_case1 = [0x43, 0x61, 0x73, 0x65, 0x31]"

definition s_case1_name :: ustr where \<comment> \<open>Case1 - standard equity-reform project\<close>
  "s_case1_name = [0x43, 0x61, 0x73, 0x65, 0x31, 0x20, 0x2D, 0x20, 0x6807, 0x51C6, 0x80A1, 0x6539, 0x9879, 0x76EE]"

definition s_date_2025_8_4 :: ustr where \<comment> \<open>week of 4 Aug 2025\<close>
  "s_date_2025_8_4 = [0x32, 0x30, 0x32, 0x35, 0x5E74, 0x38, 0x6708, 0x34, 0x65E5, 0x5F53, 0x5468]"

definition s_date_2025_8_18 :: ustr where \<comment> \<open>week of 18 Aug 2025\<close>
  "s_date_2025_8_18 = [0x32, 0x30, 0x32, 0x35, 0x5E74, 0x38, 0x6708, 0x31, 0x38, 0x65E5, 0x5F53, 0x5468]"

definition s_date_2025_10_13 :: ustr where \<comment> \<open>week of 13 Oct 2025\<close>
  "s_date_2025_10_13 = [0x32, 0x30, 0x32, 0x35, 0x5E74, 0x31, 0x30, 0x6708, 0x31, 0x33, 0x65E5, 0x5F53, 0x5468]"

definition s_date_2026_1_12 :: ustr where \<comment> \<open>week of 12 Jan 2026\<close>
  "s_date_2026_1_12 = [0x32, 0x30, 0x32, 0x36, 0x5E74, 0x31, 0x6708, 0x31, 0x32, 0x65E5, 0x5F53, 0x5468]"

definition s_period_2023_2025 :: ustr where \<comment> \<open>2023-2025 (years)\<close>
  "s_period_2023_2025 = [0x32, 0x30, 0x32, 0x33, 0x2D, 0x32, 0x30, 0x32, 0x35, 0x5E74]"

definition s_readiness_prelim_fin :: ustr where \<comment> \<open>readiness indicator: preliminary financial review/pre-audit\<close>
  "s_readiness_prelim_fin = [0x521D, 0x6B65, 0x7684, 0x8D22, 0x52A1, 0x68B3, 0x7406, 0x2F, 0x9884, 0x5BA1]"

definition k_project_start_date :: ustr where \<comment> \<open>the key project_start_date\<close>
  "k_project_start_date = [0x70, 0x72, 0x6F, 0x6A, 0x65, 0x63, 0x74, 0x5F, 0x73, 0x74, 0x61, 0x72, 0x74, 0x5F, 0x64, 0x61, 0x74, 0x65]"

definition k_sponsor_agreement_date :: ustr where \<comment> \<open>the key sponsor_agreement_date\<close>
  "k_sponsor_agreement_date = [0x73, 0x70, 0x6F, 0x6E, 0x73, 0x6F, 0x72, 0x5F, 0x61, 0x67, 0x72, 0x65, 0x65, 0x6D, 0x65, 0x6E, 0x74, 0x5F, 0x64, 0x61, 0x74, 0x65]"

definition k_equity_reform_base_date :: ustr where \<comment> \<open>the key equity_reform_base_date\<close>
  "k_equity_reform_base_date = [0x65, 0x71, 0x75, 0x69, 0x74, 0x79, 0x5F, 0x72, 0x65, 0x66, 0x6F, 0x72, 0x6D, 0x5F, 0x62, 0x61, 0x73, 0x65, 0x5F, 0x64, 0x61, 0x74, 0x65]"

definition k_equity_reform_completion_date :: ustr where \<comment> \<open>the key equity_reform_completion_date\<close>
  "k_equity_reform_completion_date = [0x65, 0x71, 0x75, 0x69, 0x74, 0x79, 0x5F, 0x72, 0x65, 0x66, 0x6F, 0x72, 0x6D, 0x5F, 0x63, 0x6F, 0x6D, 0x70, 0x6C, 0x65, 0x74, 0x69, 0x6F, 0x6E, 0x5F, 0x64, 0x61, 0x74, 0x65]"

definition k_a1_submission_date :: ustr where \<comment> \<open>the key a1_submission_date\<close>
  "k_a1_submission_date = [0x61, 0x31, 0x5F, 0x73, 0x75, 0x62, 0x6D, 0x69, 0x73, 0x73, 0x69, 0x6F, 0x6E, 0x5F, 0x64, 0x61, 0x74, 0x65]"

section \<open>Errors\<close>

text \<open>
  The exceptions the modelled code can raise: a missing dictionary key, a string that
  \<open>strptime\<close> refuses (or a date that does not exist), and date arithmetic that leaves
  the years 1 to 9999.
\<close>

datatype error = KeyError ustr | ValueError | OverflowError

definition bind :: "error + 'a \<Rightarrow> ('a \<Rightarrow> error + 'b) \<Rightarrow> error + 'b" where
  "bind m f = (case m of Inl e \<Rightarrow> Inl e | Inr x \<Rightarrow> f x)"

definition dict_lookup :: "(ustr \<times> 'v) list \<Rightarrow> ustr \<Rightarrow> error + 'v" where
  \<comment> \<open>\<open>d[k]\<close>\<close>
  "dict_lookup d k = (case map_of d k of None \<Rightarrow> Inl (KeyError k) | Some v \<Rightarrow> Inr v)"

definition dict_get :: "(ustr \<times> 'v) list \<Rightarrow> ustr \<Rightarrow> 'v \<Rightarrow> 'v" where
  \<comment> \<open>\<open>d.get(k, default)\<close>\<close>
  "dict_get d k dflt = (case map_of d k of None \<Rightarrow> dflt | Some v \<Rightarrow> v)"

section \<open>Dates\<close>

text \<open>
  Every \<open>datetime\<close> of the generator comes from \<open>strptime\<close> with the format
  \<open>%Y-%m-%d\<close> or from adding whole weeks to such a value, so its time of day is midnight
  and it is determined by its date. It is modelled by the proleptic Gregorian ordinal of
  that date (\<open>date.toordinal()\<close>, 1 for 0001-01-01), the number the library's date
  arithmetic and comparison work on; year, month and day are read back with \<open>ord2ymd\<close>.
  The calendar functions follow the \<open>datetime\<close> module.
\<close>

type_synonym datetime = int

definition MAXORDINAL :: int where \<comment> \<open>the ordinal of 9999-12-31\<close>
  "MAXORDINAL = 3652059"

definition is_leap :: "int \<Rightarrow> bool" where
  "is_leap y = (y mod 4 = 0 \<and> (y mod 100 \<noteq> 0 \<or> y mod 400 = 0))"

definition days_before_year :: "int \<Rightarrow> int" where
  "days_before_year year = (let y = year - 1 in y * 365 + y div 4 - y div 100 + y div 400)"

definition DAYS_IN_MONTH :: "int list" where
  "DAYS_IN_MONTH = [-1, 31, 28, 31, 30, 31, 30, 31, 31, 30, 31, 30, 31]"

definition DAYS_BEFORE_MONTH :: "int list" where
  "DAYS_BEFORE_MONTH = [-1, 0, 31, 59, 90, 120, 151, 181, 212, 243, 273, 304, 334]"

definition days_in_month :: "int \<Rightarrow> int \<Rightarrow> int" where
  \<comment> \<open>called with \<open>1 \<le> month \<le> 12\<close> only\<close>
  "days_in_month year month =
     (if month = 2 \<and> is_leap year then 29 else DAYS_IN_MONTH ! nat month)"

definition days_before_month :: "int \<Rightarrow> int \<Rightarrow> int" where
  \<comment> \<open>called with \<open>1 \<le> month \<le> 12\<close> only\<close>
  "days_before_month year month =
     DAYS_BEFORE_MONTH ! nat month + (if month > 2 \<and> is_leap year then 1 else 0)"

definition ymd2ord :: "int \<Rightarrow> int \<Rightarrow> int \<Rightarrow> int" where
  "ymd2ord year month day = days_before_year year + days_before_month year month + day"

definition ord2ymd :: "int \<Rightarrow> int \<times> int \<times> int" where
  "ord2ymd n0 =
     (let n = n0 - 1;
          n400 = n div 146097; n = n mod 146097;
          year = n400 * 400 + 1;
          n100 = n div 36524; n = n mod 36524;
          n4 = n div 1461; n = n mod 1461;
          n1 = n div 365; n = n mod 365;
          year = year + n100 * 100 + n4 * 4 + n1
      in if n1 = 4 \<or> n100 = 4 then (year - 1, 12, 31)
         else
           let leapyear = (n1 = 3 \<and> (n4 \<noteq> 24 \<or> n100 = 3));
               month = (n + 50) div 32;
               preceding = DAYS_BEFORE_MONTH ! nat month + (if month > 2 \<and> leapyear then 1 else 0)
           in if preceding > n
              then let month' = month - 1;
                       preceding' = preceding
                         - (DAYS_IN_MONTH ! nat month' + (if month' = 2 \<and> leapyear then 1 else 0))
                   in (year, month', n - preceding' + 1)
              else (year, month, n - preceding + 1))"

subsection \<open>\<open>strptime(s, "%Y-%m-%d")\<close>\<close>

text \<open>
  \<open>strptime\<close> turns the format into the regular expression
  \<open>(?P<Y>\d\d\d\d)-(?P<m>1[0-2]|0[1-9]|[1-9])-(?P<d>3[0-1]|[1-2]\d|0[1-9]|[1-9]| [1-9])\<close>,
  matches it at the start of the string and refuses a string with characters left over.
  The alternatives are tried in the order written. For the month, an alternative that
  matches but is not followed by \<open>-\<close> cannot be repaired by a later one (after \<open>1[0-2]\<close>
  the second character is a digit, after \<open>0[1-9]\<close> the first is \<open>0\<close>), so the first
  match decides. \<open>\d\<close> matches every Unicode decimal digit (the characters of category
  \<open>Nd\<close>), and \<open>int\<close> reads each of them as its decimal value; the classes \<open>[0-2]\<close>,
  \<open>[1-9]\<close> and the like are ASCII. The decimal digits come in 66 runs of ten consecutive
  code points, zero to nine (Unicode 14.0, the version of CPython 3.11); \<open>DIGIT_ZEROS\<close>
  lists the zero of each run.
\<close>

definition DIGIT_ZEROS :: "int list" where
  "DIGIT_ZEROS =
     [0x30, 0x660, 0x6F0, 0x7C0, 0x966, 0x9E6, 0xA66, 0xAE6,
      0xB66, 0xBE6, 0xC66, 0xCE6, 0xD66, 0xDE6, 0xE50, 0xED0,
      0xF20, 0x1040, 0x1090, 0x17E0, 0x1810, 0x1946, 0x19D0, 0x1A80,
      0x1A90, 0x1B50, 0x1BB0, 0x1C40, 0x1C50, 0xA620, 0xA8D0, 0xA900,
      0xA9D0, 0xA9F0, 0xAA50, 0xABF0, 0xFF10, 0x104A0, 0x10D30, 0x11066,
      0x110F0, 0x11136, 0x111D0, 0x112F0, 0x11450, 0x114D0, 0x11650, 0x116C0,
      0x11730, 0x118E0, 0x11950, 0x11C50, 0x11D50, 0x11DA0, 0x16A60, 0x16AC0,
      0x16B50, 0x1D7CE, 0x1D7D8, 0x1D7E2, 0x1D7EC, 0x1D7F6, 0x1E140, 0x1E2F0,
      0x1E950, 0x1FBF0]"

definition digit_zero :: "int \<Rightarrow> int option" where
  \<comment> \<open>the zero of the run of decimal digits a character belongs to\<close>
  "digit_zero c = find (\<lambda>z. z \<le> c \<and> c \<le> z + 9) DIGIT_ZEROS"

definition is_digit :: "int \<Rightarrow> bool" where
  \<comment> \<open>\<open>\d\<close>\<close>
  "is_digit c = (digit_zero c \<noteq> None)"

definition between :: "int \<Rightarrow> int \<Rightarrow> int \<Rightarrow> bool" where
  "between lo hi c = (lo \<le> c \<and> c \<le> hi)"

definition digit_val :: "int \<Rightarrow> int" where
  \<comment> \<open>\<open>int\<close> of one digit; called on decimal digits only\<close>
  "digit_val c = (case digit_zero c of None \<Rightarrow> 0 | Some z \<Rightarrow> c - z)"

fun re_year :: "ustr \<Rightarrow> (int \<times> ustr) option" where
  "re_year (a # b # c # d # r) =
     (if is_digit a \<and> is_digit b \<and> is_digit c \<and> is_digit d
      then Some (1000 * digit_val a + 100 * digit_val b + 10 * digit_val c + digit_val d, r)
      else None)"
| "re_year _ = None"

fun re_dash :: "ustr \<Rightarrow> ustr option" where
  "re_dash (c # r) = (if c = 0x2D then Some r else None)"
| "re_dash [] = None"

fun re_month :: "ustr \<Rightarrow> (int \<times> ustr) option" where
  "re_month (a # b # r) =
     (if a = 0x31 \<and> between 0x30 0x32 b then Some (10 + digit_val b, r)
      else if a = 0x30 \<and> between 0x31 0x39 b then Some (digit_val b, r)
      else if between 0x31 0x39 a then Some (digit_val a, b # r)
      else None)"
| "re_month [a] = (if between 0x31 0x39 a then Some (digit_val a, []) else None)"
| "re_month [] = None"

fun re_day :: "ustr \<Rightarrow> (int \<times> ustr) option" where
  "re_day (a # b # r) =
     (if a = 0x33 \<and> between 0x30 0x31 b then Some (30 + digit_val b, r)
      else if between 0x31 0x32 a \<and> is_digit b then Some (10 * digit_val a + digit_val b, r)
      else if a = 0x30 \<and> between 0x31 0x39 b then Some (digit_val b, r)
      else if between 0x31 0x39 a then Some (digit_val a, b # r)
      else if a = 0x20 \<and> between 0x31 0x39 b then Some (digit_val b, r)
      else None)"
| "re_day [a] = (if between 0x31 0x39 a then Some (digit_val a, []) else None)"
| "re_day [] = None"

definition match_ymd :: "ustr \<Rightarrow> (int \<times> int \<times> int) option" where
  \<comment> \<open>the three groups, when the expression matches the whole string\<close>
  "match_ymd s =
     Option.bind (re_year s) (\<lambda>(y, s1).
     Option.bind (re_dash s1) (\<lambda>s2.
     Option.bind (re_month s2) (\<lambda>(m, s3).
     Option.bind (re_dash s3) (\<lambda>s4.
     Option.bind (re_day s4) (\<lambda>(d, s5).
     if s5 = [] then Some (y, m, d) else None)))))"

definition strptime :: "ustr \<Rightarrow> error + datetime" where
  \<comment> \<open>the groups are checked by the \<open>date\<close> constructor: year 0 and a day the month does
      not have are refused\<close>
  "strptime s =
     (case match_ymd s of
        None \<Rightarrow> Inl ValueError
      | Some (y, m, d) \<Rightarrow>
          if 1 \<le> y \<and> y \<le> 9999 \<and> 1 \<le> m \<and> m \<le> 12 \<and> 1 \<le> d \<and> d \<le> days_in_month y m
          then Inr (ymd2ord y m d) else Inl ValueError)"

subsection \<open>The generator's date codec\<close>

definition parse_date :: "ustr \<Rightarrow> error + datetime" where
  \<comment> \<open>\<open>_parse_date\<close>\<close>
  "parse_date date_str =
     (if contains date_str s_week
      then let date_part =
                 replace (replace (replace (replace date_str s_week []) s_year [0x2D])
                   s_month [0x2D]) s_day []
           in strptime date_part
      else strptime date_str)"

definition format_date :: "datetime \<Rightarrow> ustr" where
  \<comment> \<open>\<open>_format_date\<close>: the f-string prints year, month and day without padding\<close>
  "format_date date =
     (case ord2ymd date of (year, month, day) \<Rightarrow>
        str_int year @ s_year @ str_int month @ s_month @ str_int day
          @ s_day @ s_week)"

definition add_weeks :: "datetime \<Rightarrow> int \<Rightarrow> error + datetime" where
  \<comment> \<open>\<open>date + timedelta(weeks=w)\<close>: a \<open>timedelta\<close> holds at most 999999999 days, and the
      sum must be a date of the years 1 to 9999\<close>
  "add_weeks date w =
     (if \<bar>7 * w\<bar> > 999999999 then Inl OverflowError
      else if 0 < date + 7 * w \<and> date + 7 * w \<le> MAXORDINAL then Inr (date + 7 * w)
      else Inl OverflowError)"


section \<open>Floating-point numbers\<close>

text \<open>
  The rule tables hold Python \<open>float\<close>s (IEEE 754 binary64) and the generator multiplies
  them. A finite \<open>float\<close> is modelled by the rational number it stands for; a decimal
  literal and the result of an operation are rounded to the nearest binary64 number, ties
  to even (\<open>fl\<close>: 53 significant bits, exponents down to the subnormal range). Overflow to
  infinity is not modelled: the only operands are the entries of the tables and the week
  offsets, all below 64 in magnitude.
\<close>

type_synonym pyfloat = rat

definition pow2 :: "int \<Rightarrow> rat" where
  "pow2 e = (if 0 \<le> e then 2 ^ nat e else 1 / 2 ^ nat (- e))"

definition ilog2 :: "rat \<Rightarrow> int" where
  \<comment> \<open>for \<open>x > 0\<close>: the \<open>e\<close> with \<open>2\<^sup>e \<le> x < 2\<^sup>e\<^sup>+\<^sup>1\<close>\<close>
  "ilog2 x =
     (case quotient_of x of (a, b) \<Rightarrow>
        let d = bitlen a - bitlen b in if pow2 d \<le> x then d else d - 1)"

definition round_half_even :: "rat \<Rightarrow> int" where
  "round_half_even q =
     (let f = \<lfloor>q\<rfloor>; r = q - of_int f
      in if r < 1 / 2 then f else if 1 / 2 < r then f + 1 else if even f then f else f + 1)"

definition fl :: "rat \<Rightarrow> pyfloat" where
  "fl x =
     (if x = 0 then 0
      else let e = max (ilog2 \<bar>x\<bar>) (- 1022); u = pow2 (e - 52)
           in of_int (round_half_even (x / u)) * u)"

definition float_lit :: "int \<Rightarrow> nat \<Rightarrow> pyfloat" where
  \<comment> \<open>the literal with digits \<open>m\<close> and \<open>k\<close> of them after the point: \<open>float_lit 85 2\<close> is \<open>0.85\<close>\<close>
  "float_lit m k = fl (of_int m / 10 ^ k)"

definition float_of_int :: "int \<Rightarrow> pyfloat" where
  "float_of_int n = fl (of_int n)"

definition float_mul :: "pyfloat \<Rightarrow> pyfloat \<Rightarrow> pyfloat" where
  "float_mul a b = fl (a * b)"

definition int_of_float :: "pyfloat \<Rightarrow> int" where
  \<comment> \<open>\<open>int(x)\<close>: towards zero\<close>
  "int_of_float x = (if 0 \<le> x then \<lfloor>x\<rfloor> else \<lceil>x\<rceil>)"


section \<open>The generator's data\<close>

text \<open>
  A task template of \<open>_load_base_templates\<close> is a dictionary with the keys for the
  work-stream, the task, the lead and the week offset; a rule of \<open>_load_variation_rules\<close>
  is a dictionary with the keys of its category. Each becomes a record. The tables
  themselves are dictionaries keyed by strings and become association lists.
\<close>

record task_template =
  t_workstream :: ustr
  t_task :: ustr
  t_lead :: ustr
  t_week_offset :: int

record structure_rule =
  add_modules :: "ustr list"
  complexity_modifier :: pyfloat

record pace_rule =
  time_compression :: pyfloat
  risk_level :: ustr

record board_rule =
  description :: ustr

record financial_rule =
  audit_complexity :: pyfloat

record readiness_rule =
  preparation_factor :: pyfloat

record rule_tables =
  vr_company_structure :: "(ustr \<times> structure_rule) list"
  vr_project_pace :: "(ustr \<times> pace_rule) list"
  vr_listing_board_hk :: "(ustr \<times> board_rule) list"
  vr_a1_filing_financials :: "(ustr \<times> financial_rule) list"
  vr_ipo_readiness :: "(ustr \<times> readiness_rule) list"

definition load_base_templates :: "(ustr \<times> task_template list) list" where
  \<comment> \<open>\<open>_load_base_templates\<close>\<close>
  "load_base_templates =
     [(s_core_tasks,
        [\<lparr>t_workstream = s_ws_project_management, t_task = s_task_kickoff,
           t_lead = s_lead_all, t_week_offset = 0\<rparr>,
         \<lparr>t_workstream = s_ws_regulatory, t_task = s_task_sponsor,
           t_lead = s_lead_sponsor, t_week_offset = 2\<rparr>,
         \<lparr>t_workstream = s_ws_regulatory, t_task = s_task_a1,
           t_lead = s_lead_parties, t_week_offset = 23\<rparr>]),
      (s_equity_reform_tasks,
        [\<lparr>t_workstream = s_ws_equity_reform, t_task = s_task_equity_base,
           t_lead = s_lead_company_counsel, t_week_offset = 2\<rparr>,
         \<lparr>t_workstream = s_ws_equity_reform, t_task = s_task_equity_done,
           t_lead = s_lead_company_counsel, t_week_offset = 10\<rparr>])]"

definition load_variation_rules :: rule_tables where
  \<comment> \<open>\<open>_load_variation_rules\<close>\<close>
  "load_variation_rules =
     \<lparr>vr_company_structure =
        [(s_structure_llc,
            \<lparr>add_modules = [s_equity_reform_tasks], complexity_modifier = float_lit 11 1\<rparr>),
         (s_structure_jsc, \<lparr>add_modules = [], complexity_modifier = float_lit 8 1\<rparr>),
         (s_structure_vie_built, \<lparr>add_modules = [], complexity_modifier = float_lit 9 1\<rparr>),
         (s_structure_vie_todo, \<lparr>add_modules = [], complexity_modifier = float_lit 13 1\<rparr>)],
      vr_project_pace =
        [(s_pace_aggressive, \<lparr>time_compression = float_lit 85 2, risk_level = s_risk_high\<rparr>),
         (s_pace_standard, \<lparr>time_compression = float_lit 10 1, risk_level = s_risk_medium\<rparr>),
         (s_pace_cautious, \<lparr>time_compression = float_lit 115 2, risk_level = s_risk_low\<rparr>)],
      vr_listing_board_hk =
        [(s_main_board, \<lparr>description = s_main_board\<rparr>),
         (s_gem, \<lparr>description = s_gem\<rparr>)],
      vr_a1_filing_financials =
        [(s_fin_two_plus_interim, \<lparr>audit_complexity = float_lit 8 1\<rparr>),
         (s_fin_three, \<lparr>audit_complexity = float_lit 10 1\<rparr>),
         (s_fin_three_plus_interim, \<lparr>audit_complexity = float_lit 12 1\<rparr>)],
      vr_ipo_readiness =
        [(s_high_readiness, \<lparr>preparation_factor = float_lit 9 1\<rparr>),
         (s_medium_readiness, \<lparr>preparation_factor = float_lit 10 1\<rparr>),
         (s_low_readiness, \<lparr>preparation_factor = float_lit 12 1\<rparr>)]\<rparr>"

text \<open>
  The parameters of a case are a dictionary; a key may be missing, which the generator
  answers with a default (\<open>get\<close>) or a \<open>KeyError\<close> (\<open>[]\<close>). Each key the generator reads
  is a field, \<open>None\<close> when the dictionary does not have it. The values are of the types
  the parameter schema gives them: strings, and lists of strings for the two multi-selects.
\<close>

record case_params =
  cp_case_name :: "ustr option"
  cp_project_start_date :: "ustr option"
  cp_sponsor_agreement_date :: "ustr option"
  cp_equity_reform_base_date :: "ustr option"
  cp_equity_reform_completion_date :: "ustr option"
  cp_a1_submission_date :: "ustr option"
  cp_performance_period :: "ustr option"
  cp_current_structure :: "ustr option"
  cp_project_pace :: "ustr option"
  cp_listing_board_hk :: "ustr option"
  cp_a1_filing_financials :: "ustr option"
  cp_ipo_readiness :: "ustr list option"
  cp_optional_modules :: "ustr list option"

text \<open>
  An entry of the timeline is a dictionary too. While the timeline is built and sorted an
  entry also has the key \<open>sort_date\<close>; the entries returned do not.
\<close>

record timeline_entry =
  e_date :: ustr
  e_workstream :: ustr
  e_task :: ustr
  e_lead :: ustr

record keyed_entry = timeline_entry +
  sort_date :: datetime

definition pop_sort_date :: "keyed_entry \<Rightarrow> timeline_entry" where
  \<comment> \<open>\<open>item.pop("sort_date")\<close>\<close>
  "pop_sort_date item =
     \<lparr>e_date = e_date item, e_workstream = e_workstream item, e_task = e_task item,
      e_lead = e_lead item\<rparr>"

text \<open>
  The review is whatever JSON value the reviewer's answer parses to, or one of the two
  dictionaries the generator builds itself.
\<close>

datatype json =
  JNull | JBool bool | JNum rat | JStr ustr | JArr "json list" | JObj "(ustr \<times> json) list"

text \<open>
  The client of the external reviewer is outside the program. It is modelled by what the
  \<open>try\<close> block of \<open>_call_llm_for_review\<close> does with it: given the timeline it is sent, the
  block (the request, reading the answer, \<open>json.loads\<close>) either raises an \<open>Exception\<close>,
  whose text is \<open>Inl\<close>'s argument, or returns the parsed answer.
\<close>

type_synonym llm_client = "timeline_entry list \<Rightarrow> ustr + json"

record generator =
  base_templates :: "(ustr \<times> task_template list) list"
  variation_rules :: rule_tables
  llm_client :: "llm_client option"

definition init_generator :: "llm_client option \<Rightarrow> generator" where
  \<comment> \<open>\<open>__init__\<close>; whether there is a client depends on the environment
      (\<open>_init_llm_client\<close>), so it is a parameter. The parameter schema is not read by
      any modelled function and is left out.\<close>
  "init_generator client =
     \<lparr>base_templates = load_base_templates, variation_rules = load_variation_rules,
      llm_client = client\<rparr>"

record case_features =
  f_total_tasks :: nat
  f_company_structure :: ustr
  f_project_pace :: ustr
  f_listing_board :: ustr
  f_a1_financials :: ustr
  f_readiness_level :: ustr
  f_complexity_factor :: pyfloat
  f_time_factor :: pyfloat

record report =
  r_case_name :: "ustr option"
  r_params :: case_params
  r_features :: case_features
  r_review :: json

section \<open>The generator's functions\<close>

definition determine_ipo_readiness_level :: "ustr list \<Rightarrow> ustr" where
  \<comment> \<open>\<open>_determine_ipo_readiness_level\<close>\<close>
  "determine_ipo_readiness_level readiness_list =
     (if s_almost_not_started \<in> set readiness_list then s_low_readiness
      else if length (filter (\<lambda>r. r \<noteq> s_almost_not_started) readiness_list) \<ge> 3
      then s_high_readiness
      else s_medium_readiness)"

definition default_review :: json where
  "default_review = JObj [(s_review_passed, JBool True), (s_summary, JStr s_llm_disabled)]"

definition failed_review :: "ustr \<Rightarrow> json" where
  \<comment> \<open>the summary is the f-string \<open>LLM call failed: {e}\<close>\<close>
  "failed_review e = JObj [(s_review_passed, JBool True), (s_summary, JStr (s_llm_failed @ e))]"

definition call_llm_for_review ::
  "generator \<Rightarrow> timeline_entry list \<Rightarrow> case_params \<Rightarrow> json \<times> timeline_entry list list" where
  \<comment> \<open>\<open>_call_llm_for_review\<close>. The second component is the list of the requests sent to
      the external reviewer, the one effect of the function.\<close>
  "call_llm_for_review self timeline params =
     (case llm_client self of
        None \<Rightarrow> (default_review, [])
      | Some client \<Rightarrow>
          (case client timeline of
             Inr response \<Rightarrow> (response, [timeline])
           | Inl e \<Rightarrow> (failed_review e, [timeline])))"

definition required :: "ustr \<Rightarrow> 'a option \<Rightarrow> error + 'a" where
  \<comment> \<open>\<open>case_params[key]\<close>\<close>
  "required key v = (case v of None \<Rightarrow> Inl (KeyError key) | Some x \<Rightarrow> Inr x)"

definition parse_param :: "ustr \<Rightarrow> ustr option \<Rightarrow> error + datetime" where
  \<comment> \<open>\<open>self._parse_date(case_params[key])\<close>\<close>
  "parse_param key v = bind (required key v) parse_date"

definition optional :: "'a option \<Rightarrow> 'a \<Rightarrow> 'a" where
  \<comment> \<open>\<open>case_params.get(key, default)\<close>\<close>
  "optional v dflt = (case v of None \<Rightarrow> dflt | Some x \<Rightarrow> x)"

definition timeline_item ::
  "datetime \<Rightarrow> datetime \<Rightarrow> datetime \<Rightarrow> datetime \<Rightarrow> datetime \<Rightarrow> pyfloat \<Rightarrow> task_template
     \<Rightarrow> error + keyed_entry" where
  \<comment> \<open>the body of the loop over the tasks\<close>
  "timeline_item project_start_date sponsor_agreement_date equity_base_date
       equity_completion_date a1_date time_factor t =
     (let week_offset = max 0 (int_of_float (float_mul (float_of_int (t_week_offset t)) time_factor))
      in bind (add_weeks project_start_date week_offset) (\<lambda>date.
         let date = (if startswith (t_task t) s_prefix_sponsor then sponsor_agreement_date else date);
             date = (if startswith (t_task t) s_prefix_equity_base then equity_base_date else date);
             date = (if startswith (t_task t) s_prefix_equity_done then equity_completion_date else date);
             date = (if startswith (t_task t) s_prefix_a1 then a1_date else date)
         in Inr \<lparr>e_date = format_date date, e_workstream = t_workstream t, e_task = t_task t,
                 e_lead = t_lead t, sort_date = date\<rparr>))"

fun build_timeline ::
  "datetime \<Rightarrow> datetime \<Rightarrow> datetime \<Rightarrow> datetime \<Rightarrow> datetime \<Rightarrow> pyfloat \<Rightarrow> task_template list
     \<Rightarrow> error + keyed_entry list" where
  \<comment> \<open>the loop over the tasks: the entries in the order of the tasks, or the first error\<close>
  "build_timeline ps sa eb ec a1 tf [] = Inr []"
| "build_timeline ps sa eb ec a1 tf (t # tasks) =
     bind (timeline_item ps sa eb ec a1 tf t) (\<lambda>item.
     bind (build_timeline ps sa eb ec a1 tf tasks) (\<lambda>items. Inr (item # items)))"

definition collect_tasks :: "generator \<Rightarrow> structure_rule \<Rightarrow> error + task_template list" where
  \<comment> \<open>the working task list: the core tasks, then the tasks of every group the structure
      rule names, a group the templates do not have counting as empty (\<open>get(mod, [])\<close>)\<close>
  "collect_tasks self structure_rules =
     bind (dict_lookup (base_templates self) s_core_tasks) (\<lambda>core_tasks.
     Inr (core_tasks
       @ concat (map (\<lambda>module. dict_get (base_templates self) module [])
           (add_modules structure_rules))))"

definition generate_case_timeline ::
  "generator \<Rightarrow> case_params \<Rightarrow> error + (timeline_entry list \<times> report \<times> json)" where
  "generate_case_timeline self case_params =
     bind (parse_param k_project_start_date (cp_project_start_date case_params))
       (\<lambda>project_start_date.
     bind (parse_param k_sponsor_agreement_date (cp_sponsor_agreement_date case_params))
       (\<lambda>sponsor_agreement_date.
     bind (parse_param k_equity_reform_base_date (cp_equity_reform_base_date case_params))
       (\<lambda>equity_base_date.
     bind (parse_param k_equity_reform_completion_date (cp_equity_reform_completion_date case_params))
       (\<lambda>equity_completion_date.
     bind (parse_param k_a1_submission_date (cp_a1_submission_date case_params))
       (\<lambda>a1_date.
     let company_structure = optional (cp_current_structure case_params) s_structure_llc;
         project_pace = optional (cp_project_pace case_params) s_pace_standard;
         listing_board = optional (cp_listing_board_hk case_params) s_main_board;
         optional_modules = optional (cp_optional_modules case_params) [];
         optional_modules = (if s_none \<in> set optional_modules then [] else optional_modules);
         ipo_readiness = optional (cp_ipo_readiness case_params) [];
         a1_financials = optional (cp_a1_filing_financials case_params) s_fin_three
     in
     bind (dict_lookup (vr_company_structure (variation_rules self)) company_structure)
       (\<lambda>structure_rules.
     bind (dict_lookup (vr_project_pace (variation_rules self)) project_pace)
       (\<lambda>pace_rules.
     bind (dict_lookup (vr_a1_filing_financials (variation_rules self)) a1_financials)
       (\<lambda>financial_rules.
     let readiness_level = determine_ipo_readiness_level ipo_readiness in
     bind (dict_lookup (vr_ipo_readiness (variation_rules self)) readiness_level)
       (\<lambda>readiness_rules.
     let time_factor = float_mul (time_compression pace_rules) (preparation_factor readiness_rules);
         complexity_factor =
           float_mul (complexity_modifier structure_rules) (audit_complexity financial_rules)
     in
     bind (collect_tasks self structure_rules)
       (\<lambda>tasks.
     bind (build_timeline project_start_date sponsor_agreement_date equity_base_date
             equity_completion_date a1_date time_factor tasks)
       (\<lambda>timeline.
     let timeline = sort_key sort_date timeline;
         timeline = map pop_sort_date timeline;
         review = fst (call_llm_for_review self timeline case_params);
         report =
           \<lparr>r_case_name = cp_case_name case_params,
            r_params = case_params,
            r_features =
              \<lparr>f_total_tasks = length timeline,
               f_company_structure = company_structure,
               f_project_pace = project_pace,
               f_listing_board = listing_board,
               f_a1_financials = a1_financials,
               f_readiness_level = readiness_level,
               f_complexity_factor = complexity_factor,
               f_time_factor = time_factor\<rparr>,
            r_review = review\<rparr>
     in Inr (timeline, report, review))))))))))))"

definition case1_params :: case_params where
  \<comment> \<open>the parameters of \<open>Case1\<close> in \<open>generate_predefined_cases\<close>\<close>
  "case1_params =
     \<lparr>cp_case_name = Some s_case1_name,
      cp_project_start_date = Some s_date_2025_8_4,
      cp_sponsor_agreement_date = Some s_date_2025_8_18,
      cp_equity_reform_base_date = Some s_date_2025_8_18,
      cp_equity_reform_completion_date = Some s_date_2025_10_13,
      cp_a1_submission_date = Some s_date_2026_1_12,
      cp_performance_period = Some s_period_2023_2025,
      cp_current_structure = Some s_structure_llc,
      cp_project_pace = Some s_pace_standard,
      cp_listing_board_hk = Some s_main_board,
      cp_a1_filing_financials = Some s_fin_three,
      cp_ipo_readiness = Some [s_readiness_prelim_fin],
      cp_optional_modules = Some []\<rparr>"

definition predefined_cases :: "(ustr \<times> case_params) list" where
  \<comment> \<open>the dictionary \<open>cases\<close> of \<open>generate_predefined_cases\<close>\<close>
  "predefined_cases = [(s_case1, case1_params)]"

fun cases_loop ::
  "generator \<Rightarrow> (ustr \<times> case_params) list \<Rightarrow> (ustr \<times> timeline_entry list \<times> report \<times> json) list
     \<Rightarrow> error + (ustr \<times> timeline_entry list \<times> report \<times> json) list" where
  \<comment> \<open>the loop \<open>for k, cfg in cases.items(): result[k] = self.generate_case_timeline(cfg)\<close>:
      an exception of \<open>generate_case_timeline\<close> is not caught and leaves the loop\<close>
  "cases_loop self [] result = Inr result"
| "cases_loop self ((k, cfg) # cases) result =
     bind (generate_case_timeline self cfg) (\<lambda>r. cases_loop self cases (AList.update k r result))"

definition generate_predefined_cases ::
  "generator \<Rightarrow> error + (ustr \<times> timeline_entry list \<times> report \<times> json) list" where
  "generate_predefined_cases self = cases_loop self predefined_cases []"


definition is_milestone_task :: "ustr \<Rightarrow> bool" where
  \<comment> \<open>the tasks whose date the loop replaces by an anchor date: those whose text starts
      with one of the four prefixes\<close>
  "is_milestone_task name \<longleftrightarrow>
     startswith name s_prefix_sponsor \<or> startswith name s_prefix_equity_base
     \<or> startswith name s_prefix_equity_done \<or> startswith name s_prefix_a1"

section \<open>The run of \<open>Case1\<close>\<close>

text \<open>
  The timeline and the report that \<open>Case1\<close> gives, written out; they are the concrete
  input and output the theorems below are tried on. The dates are the ordinals of
  2025-08-04, 2025-08-18, 2025-10-13 and 2026-01-12.
\<close>

definition case1_timeline :: "timeline_entry list" where
  "case1_timeline =
     [\<lparr>e_date = s_date_2025_8_4, e_workstream = s_ws_project_management,
        e_task = s_task_kickoff, e_lead = s_lead_all\<rparr>,
      \<lparr>e_date = s_date_2025_8_18, e_workstream = s_ws_regulatory,
        e_task = s_task_sponsor, e_lead = s_lead_sponsor\<rparr>,
      \<lparr>e_date = s_date_2025_8_18, e_workstream = s_ws_equity_reform,
        e_task = s_task_equity_base, e_lead = s_lead_company_counsel\<rparr>,
      \<lparr>e_date = s_date_2025_10_13, e_workstream = s_ws_equity_reform,
        e_task = s_task_equity_done, e_lead = s_lead_company_counsel\<rparr>,
      \<lparr>e_date = s_date_2026_1_12, e_workstream = s_ws_regulatory,
        e_task = s_task_a1, e_lead = s_lead_parties\<rparr>]"

definition case1_report :: "json \<Rightarrow> report" where
  "case1_report review =
     \<lparr>r_case_name = Some s_case1_name,
      r_params = case1_params,
      r_features =
        \<lparr>f_total_tasks = 5,
         f_company_structure = s_structure_llc,
         f_project_pace = s_pace_standard,
         f_listing_board = s_main_board,
         f_a1_financials = s_fin_three,
         f_readiness_level = s_medium_readiness,
         f_complexity_factor = 2476979795053773 / 2251799813685248,
         f_time_factor = 1\<rparr>,
      r_review = review\<rparr>"

definition case1_tasks :: "task_template list" where
  \<comment> \<open>the working tasks of \<open>Case1\<close>: the core tasks, then the equity-reform tasks\<close>
  "case1_tasks = the (map_of load_base_templates s_core_tasks)
     @ the (map_of load_base_templates s_equity_reform_tasks)"

definition case1_items :: "keyed_entry list" where
  \<comment> \<open>the entries of \<open>Case1\<close> before they are sorted, in the order of the tasks\<close>
  "case1_items =
     [\<lparr>e_date = s_date_2025_8_4, e_workstream = s_ws_project_management,
        e_task = s_task_kickoff, e_lead = s_lead_all, sort_date = 739467\<rparr>,
      \<lparr>e_date = s_date_2025_8_18, e_workstream = s_ws_regulatory,
        e_task = s_task_sponsor, e_lead = s_lead_sponsor, sort_date = 739481\<rparr>,
      \<lparr>e_date = s_date_2026_1_12, e_workstream = s_ws_regulatory,
        e_task = s_task_a1, e_lead = s_lead_parties, sort_date = 739628\<rparr>,
      \<lparr>e_date = s_date_2025_8_18, e_workstream = s_ws_equity_reform,
        e_task = s_task_equity_base, e_lead = s_lead_company_counsel, sort_date = 739481\<rparr>,
      \<lparr>e_date = s_date_2025_10_13, e_workstream = s_ws_equity_reform,
        e_task = s_task_equity_done, e_lead = s_lead_company_counsel, sort_date = 739537\<rparr>]"

section \<open>Inputs the theorems are tried on\<close>

definition s_iso_0999_01_01 :: ustr where \<comment> \<open>the ISO date 0999-01-01\<close>
  "s_iso_0999_01_01 = [0x30, 0x39, 0x39, 0x39, 0x2D, 0x30, 0x31, 0x2D, 0x30, 0x31]"

definition s_week_0999_1_1 :: ustr where \<comment> \<open>the week of 1 Jan 0999, year written with four digits\<close>
  "s_week_0999_1_1 = [0x30, 0x39, 0x39, 0x39, 0x5E74, 0x31, 0x6708, 0x31, 0x65E5, 0x5F53, 0x5468]"

definition s_week_999_1_1 :: ustr where \<comment> \<open>the week of 1 Jan 999, as \<open>_format_date\<close> prints it\<close>
  "s_week_999_1_1 = [0x39, 0x39, 0x39, 0x5E74, 0x31, 0x6708, 0x31, 0x65E5, 0x5F53, 0x5468]"

definition s_case2 :: ustr where \<comment> \<open>Case2\<close>
  "s_case2 = [0x43, 0x61, 0x73, 0x65, 0x32]"

definition bad_date_params :: case_params where
  \<comment> \<open>\<open>Case1\<close> with a project start date that is not a date\<close>
  "bad_date_params = case1_params\<lparr>cp_project_start_date := Some s_period_2023_2025\<rparr>"

definition generator_without_equity_group :: generator where
  \<comment> \<open>a generator whose templates have the core tasks only\<close>
  "generator_without_equity_group =
     (init_generator None)
       \<lparr>base_templates := [(s_core_tasks, the (map_of load_base_templates s_core_tasks))]\<rparr>"

definition s_date_9999_8_2 :: ustr where \<comment> \<open>week of 2 Aug 9999\<close>
  "s_date_9999_8_2 = [0x39, 0x39, 0x39, 0x39, 0x5E74, 0x38, 0x6708, 0x32, 0x65E5, 0x5F53, 0x5468]"

definition s_date_9999_8_16 :: ustr where \<comment> \<open>week of 16 Aug 9999\<close>
  "s_date_9999_8_16 = [0x39, 0x39, 0x39, 0x39, 0x5E74, 0x38, 0x6708, 0x31, 0x36, 0x65E5, 0x5F53, 0x5468]"

definition s_date_9999_10_11 :: ustr where \<comment> \<open>week of 11 Oct 9999\<close>
  "s_date_9999_10_11 = [0x39, 0x39, 0x39, 0x39, 0x5E74, 0x31, 0x30, 0x6708, 0x31, 0x31, 0x65E5, 0x5F53, 0x5468]"

definition s_date_9999_12_20 :: ustr where \<comment> \<open>week of 20 Dec 9999\<close>
  "s_date_9999_12_20 = [0x39, 0x39, 0x39, 0x39, 0x5E74, 0x31, 0x32, 0x6708, 0x32, 0x30, 0x65E5, 0x5F53, 0x5468]"

definition late_params :: case_params where
  \<comment> \<open>\<open>Case1\<close> moved to the end of the year 9999: every anchor date is a date of that
      year, and the A1 filing is 20 weeks after the project start\<close>
  "late_params =
     case1_params
       \<lparr>cp_project_start_date := Some s_date_9999_8_2,
        cp_sponsor_agreement_date := Some s_date_9999_8_16,
        cp_equity_reform_base_date := Some s_date_9999_8_16,
        cp_equity_reform_completion_date := Some s_date_9999_10_11,
        cp_a1_submission_date := Some s_date_9999_12_20\<rparr>"

definition late_params_aggressive :: case_params where
  \<comment> \<open>the same parameters with the aggressive pace\<close>
  "late_params_aggressive = late_params\<lparr>cp_project_pace := Some s_pace_aggressive\<rparr>"

section \<open>The readiness classifier\<close>

lemma readiness_levels_distinct:
  "s_low_readiness \<noteq> s_high_readiness" "s_low_readiness \<noteq> s_medium_readiness"
  "s_high_readiness \<noteq> s_medium_readiness"
  by (simp_all add: s_low_readiness_def s_high_readiness_def s_medium_readiness_def)

lemma count_non_sentinel:
  assumes "distinct xs"
  shows "length (filter (\<lambda>r. r \<noteq> s) xs) = card (set xs - {s})"
proof -
  have "set (filter (\<lambda>r. r \<noteq> s) xs) = set xs - {s}"
    by auto
  moreover have "distinct (filter (\<lambda>r. r \<noteq> s) xs)"
    using assms by simp
  ultimately show ?thesis
    by (metis distinct_card)
qed

text \<open>
  C4. The classifier is a total function of the indicators. On a set of indicators (a list
  without repetitions) it returns Low when the sentinel "almost not started" is among
  them, whatever else is; otherwise High when at least three indicators other than the
  sentinel are present; otherwise Medium, which is also the answer for no indicators. The
  three answers are different strings, and the answer depends on the set only.
\<close>

theorem readiness_classifier_on_sets:
  assumes "distinct xs"
  shows "(s_almost_not_started \<in> set xs
            \<longrightarrow> determine_ipo_readiness_level xs = s_low_readiness)
       \<and> (s_almost_not_started \<notin> set xs \<and> 3 \<le> card (set xs - {s_almost_not_started})
            \<longrightarrow> determine_ipo_readiness_level xs = s_high_readiness)
       \<and> (s_almost_not_started \<notin> set xs \<and> card (set xs - {s_almost_not_started}) < 3
            \<longrightarrow> determine_ipo_readiness_level xs = s_medium_readiness)
       \<and> determine_ipo_readiness_level [] = s_medium_readiness
       \<and> s_low_readiness \<noteq> s_high_readiness \<and> s_low_readiness \<noteq> s_medium_readiness
       \<and> s_high_readiness \<noteq> s_medium_readiness
       \<and> (\<forall>ys. distinct ys \<and> set ys = set xs
            \<longrightarrow> determine_ipo_readiness_level ys = determine_ipo_readiness_level xs)"
proof -
  have n: "\<And>zs. distinct zs \<Longrightarrow>
      length (filter (\<lambda>r. r \<noteq> s_almost_not_started) zs) = card (set zs - {s_almost_not_started})"
    by (rule count_non_sentinel)
  have same: "determine_ipo_readiness_level ys = determine_ipo_readiness_level xs"
    if "distinct ys" "set ys = set xs" for ys
    using that assms by (simp add: determine_ipo_readiness_level_def n)
  have cases: "(s_almost_not_started \<in> set xs
            \<longrightarrow> determine_ipo_readiness_level xs = s_low_readiness)
       \<and> (s_almost_not_started \<notin> set xs \<and> 3 \<le> card (set xs - {s_almost_not_started})
            \<longrightarrow> determine_ipo_readiness_level xs = s_high_readiness)
       \<and> (s_almost_not_started \<notin> set xs \<and> card (set xs - {s_almost_not_started}) < 3
            \<longrightarrow> determine_ipo_readiness_level xs = s_medium_readiness)
       \<and> determine_ipo_readiness_level [] = s_medium_readiness"
    using assms by (auto simp: determine_ipo_readiness_level_def n)
  from cases same readiness_levels_distinct show ?thesis
    by blast
qed

theorem readiness_classifier_on_sets_witness:
  "distinct [s_almost_not_started, s_readiness_prelim_fin]
   \<and> determine_ipo_readiness_level [s_almost_not_started, s_readiness_prelim_fin] = s_low_readiness
   \<and> determine_ipo_readiness_level [s_readiness_prelim_fin, s_none, s_gem] = s_high_readiness
   \<and> determine_ipo_readiness_level [s_readiness_prelim_fin] = s_medium_readiness
   \<and> determine_ipo_readiness_level [s_readiness_prelim_fin]
       = determine_ipo_readiness_level (rev [s_readiness_prelim_fin])"
proof -
  have d1: "distinct [s_almost_not_started, s_readiness_prelim_fin]"
    by (simp add: s_almost_not_started_def s_readiness_prelim_fin_def)
  have d2: "distinct [s_readiness_prelim_fin, s_none, s_gem]"
    by (simp add: s_readiness_prelim_fin_def s_none_def s_gem_def)
  have d3: "distinct [s_readiness_prelim_fin]"
    by simp
  have m2: "s_almost_not_started \<notin> set [s_readiness_prelim_fin, s_none, s_gem]"
    by (simp add: s_almost_not_started_def s_readiness_prelim_fin_def s_none_def s_gem_def)
  have m3: "s_almost_not_started \<notin> set [s_readiness_prelim_fin]"
    by (simp add: s_almost_not_started_def s_readiness_prelim_fin_def)
  have c2: "3 \<le> card (set [s_readiness_prelim_fin, s_none, s_gem] - {s_almost_not_started})"
    using m2 d2 by (simp add: card_insert_if)
  have c3: "card (set [s_readiness_prelim_fin] - {s_almost_not_started}) < 3"
    using m3 by simp
  have a1: "determine_ipo_readiness_level [s_almost_not_started, s_readiness_prelim_fin]
      = s_low_readiness"
    using readiness_classifier_on_sets [OF d1, THEN conjunct1] by simp
  have a2: "determine_ipo_readiness_level [s_readiness_prelim_fin, s_none, s_gem] = s_high_readiness"
    using readiness_classifier_on_sets [OF d2, THEN conjunct2, THEN conjunct1] m2 c2 by blast
  have a3: "determine_ipo_readiness_level [s_readiness_prelim_fin] = s_medium_readiness"
    using readiness_classifier_on_sets [OF d3, THEN conjunct2, THEN conjunct2, THEN conjunct1] m3 c3
    by blast
  have a4: "determine_ipo_readiness_level [s_readiness_prelim_fin]
      = determine_ipo_readiness_level (rev [s_readiness_prelim_fin])"
    by simp
  show ?thesis
    using d1 a1 a2 a3 a4 by blast
qed

section \<open>Stepping through the generator\<close>

lemma bind_Inr_iff: "bind m f = Inr y \<longleftrightarrow> (\<exists>x. m = Inr x \<and> f x = Inr y)"
  by (cases m) (simp_all add: bind_def)

lemma bind_Inl_iff: "bind m f = Inl e \<longleftrightarrow> m = Inl e \<or> (\<exists>x. m = Inr x \<and> f x = Inl e)"
  by (cases m) (simp_all add: bind_def)

lemma bind_Inr [simp]: "bind (Inr x) f = f x"
  by (simp add: bind_def)

lemma bind_Inl [simp]: "bind (Inl e) f = Inl e"
  by (simp add: bind_def)

lemma max_int_of_float: "max 0 (int_of_float x) = max 0 \<lfloor>x\<rfloor>"
proof (cases "0 \<le> x")
  case True
  then show ?thesis by (simp add: int_of_float_def)
next
  case False
  then have "x < 0" by simp
  then have "\<lceil>x\<rceil> \<le> 0" "\<lfloor>x\<rfloor> \<le> 0"
    by linarith+
  with False show ?thesis by (simp add: int_of_float_def)
qed

lemma add_weeks_Inr:
  assumes "add_weeks d w = Inr d'"
  shows "d' = d + 7 * w" and "0 < d'" and "d' \<le> MAXORDINAL"
  using assms by (auto simp: add_weeks_def split: if_splits)

text \<open>The four prefixes start with different characters: a task matches at most one.\<close>

lemma prefixes_exclusive:
  "startswith s s_prefix_sponsor \<Longrightarrow> \<not> startswith s s_prefix_equity_base"
  "startswith s s_prefix_sponsor \<Longrightarrow> \<not> startswith s s_prefix_equity_done"
  "startswith s s_prefix_sponsor \<Longrightarrow> \<not> startswith s s_prefix_a1"
  "startswith s s_prefix_equity_base \<Longrightarrow> \<not> startswith s s_prefix_equity_done"
  "startswith s s_prefix_equity_base \<Longrightarrow> \<not> startswith s s_prefix_a1"
  "startswith s s_prefix_equity_done \<Longrightarrow> \<not> startswith s s_prefix_a1"
  by (cases s; simp add: s_prefix_sponsor_def s_prefix_equity_base_def s_prefix_equity_done_def
      s_prefix_a1_def)+

lemma timeline_item_Inr:
  assumes "timeline_item ps sa eb ec a1 tf t = Inr item"
  shows "e_workstream item = t_workstream t" and "e_task item = t_task t"
    and "e_lead item = t_lead t" and "e_date item = format_date (sort_date item)"
    and "startswith (t_task t) s_prefix_sponsor \<Longrightarrow> sort_date item = sa"
    and "startswith (t_task t) s_prefix_equity_base \<Longrightarrow> sort_date item = eb"
    and "startswith (t_task t) s_prefix_equity_done \<Longrightarrow> sort_date item = ec"
    and "startswith (t_task t) s_prefix_a1 \<Longrightarrow> sort_date item = a1"
    and "\<not> startswith (t_task t) s_prefix_sponsor \<Longrightarrow>
         \<not> startswith (t_task t) s_prefix_equity_base \<Longrightarrow>
         \<not> startswith (t_task t) s_prefix_equity_done \<Longrightarrow>
         \<not> startswith (t_task t) s_prefix_a1 \<Longrightarrow>
         sort_date item = ps + 7 * max 0 \<lfloor>float_mul (float_of_int (t_week_offset t)) tf\<rfloor>"
proof -
  let ?w = "max 0 (int_of_float (float_mul (float_of_int (t_week_offset t)) tf))"
  from assms obtain d where d: "add_weeks ps ?w = Inr d"
    and item: "item =
      \<lparr>e_date = format_date
          (if startswith (t_task t) s_prefix_a1 then a1
           else if startswith (t_task t) s_prefix_equity_done then ec
           else if startswith (t_task t) s_prefix_equity_base then eb
           else if startswith (t_task t) s_prefix_sponsor then sa else d),
       e_workstream = t_workstream t, e_task = t_task t, e_lead = t_lead t,
       sort_date =
          (if startswith (t_task t) s_prefix_a1 then a1
           else if startswith (t_task t) s_prefix_equity_done then ec
           else if startswith (t_task t) s_prefix_equity_base then eb
           else if startswith (t_task t) s_prefix_sponsor then sa else d)\<rparr>"
    by (auto simp: timeline_item_def Let_def bind_Inr_iff)
  from d have d': "d = ps + 7 * max 0 \<lfloor>float_mul (float_of_int (t_week_offset t)) tf\<rfloor>"
    by (simp add: add_weeks_Inr(1) max_int_of_float)
  show "e_workstream item = t_workstream t" "e_task item = t_task t" "e_lead item = t_lead t"
    "e_date item = format_date (sort_date item)"
    by (simp_all add: item)
  show "startswith (t_task t) s_prefix_sponsor \<Longrightarrow> sort_date item = sa"
    by (simp add: item prefixes_exclusive)
  show "startswith (t_task t) s_prefix_equity_base \<Longrightarrow> sort_date item = eb"
    by (simp add: item prefixes_exclusive)
  show "startswith (t_task t) s_prefix_equity_done \<Longrightarrow> sort_date item = ec"
    by (simp add: item prefixes_exclusive)
  show "startswith (t_task t) s_prefix_a1 \<Longrightarrow> sort_date item = a1"
    by (simp add: item)
  show "\<not> startswith (t_task t) s_prefix_sponsor \<Longrightarrow>
         \<not> startswith (t_task t) s_prefix_equity_base \<Longrightarrow>
         \<not> startswith (t_task t) s_prefix_equity_done \<Longrightarrow>
         \<not> startswith (t_task t) s_prefix_a1 \<Longrightarrow>
         sort_date item = ps + 7 * max 0 \<lfloor>float_mul (float_of_int (t_week_offset t)) tf\<rfloor>"
    by (simp add: item d')
qed

lemma build_timeline_Inr:
  "build_timeline ps sa eb ec a1 tf tasks = Inr items
     \<Longrightarrow> list_all2 (\<lambda>t item. timeline_item ps sa eb ec a1 tf t = Inr item) tasks items"
proof (induction tasks arbitrary: items)
  case Nil
  then show ?case by simp
next
  case (Cons t tasks)
  then show ?case
    by (auto simp: bind_Inr_iff)
qed

lemma build_timeline_Inl:
  "build_timeline ps sa eb ec a1 tf tasks = Inl e
     \<Longrightarrow> \<exists>t \<in> set tasks. timeline_item ps sa eb ec a1 tf t = Inl e"
  by (induction tasks) (auto simp: bind_Inl_iff)

lemma build_timeline_ok:
  "list_all2 (\<lambda>t item. timeline_item ps sa eb ec a1 tf t = Inr item) tasks items
     \<Longrightarrow> build_timeline ps sa eb ec a1 tf tasks = Inr items"
  by (induction tasks items rule: list_all2_induct) simp_all

text \<open>
  What a successful run of \<open>generate_case_timeline\<close> went through: the five dates, the
  four rules, the tasks and the entries built from them; and what it returns.
\<close>

lemma generate_case_timeline_Inr_iff:
  "generate_case_timeline self p = Inr (timeline, report, review) \<longleftrightarrow>
     (\<exists>ps sa eb ec a1 sr pr fr rr tasks items.
        parse_param k_project_start_date (cp_project_start_date p) = Inr ps
      \<and> parse_param k_sponsor_agreement_date (cp_sponsor_agreement_date p) = Inr sa
      \<and> parse_param k_equity_reform_base_date (cp_equity_reform_base_date p) = Inr eb
      \<and> parse_param k_equity_reform_completion_date (cp_equity_reform_completion_date p) = Inr ec
      \<and> parse_param k_a1_submission_date (cp_a1_submission_date p) = Inr a1
      \<and> dict_lookup (vr_company_structure (variation_rules self))
            (optional (cp_current_structure p) s_structure_llc) = Inr sr
      \<and> dict_lookup (vr_project_pace (variation_rules self))
            (optional (cp_project_pace p) s_pace_standard) = Inr pr
      \<and> dict_lookup (vr_a1_filing_financials (variation_rules self))
            (optional (cp_a1_filing_financials p) s_fin_three) = Inr fr
      \<and> dict_lookup (vr_ipo_readiness (variation_rules self))
            (determine_ipo_readiness_level (optional (cp_ipo_readiness p) [])) = Inr rr
      \<and> collect_tasks self sr = Inr tasks
      \<and> build_timeline ps sa eb ec a1
            (float_mul (time_compression pr) (preparation_factor rr)) tasks = Inr items
      \<and> timeline = map pop_sort_date (sort_key sort_date items)
      \<and> review = fst (call_llm_for_review self timeline p)
      \<and> report =
           \<lparr>r_case_name = cp_case_name p,
            r_params = p,
            r_features =
              \<lparr>f_total_tasks = length timeline,
               f_company_structure = optional (cp_current_structure p) s_structure_llc,
               f_project_pace = optional (cp_project_pace p) s_pace_standard,
               f_listing_board = optional (cp_listing_board_hk p) s_main_board,
               f_a1_financials = optional (cp_a1_filing_financials p) s_fin_three,
               f_readiness_level = determine_ipo_readiness_level (optional (cp_ipo_readiness p) []),
               f_complexity_factor = float_mul (complexity_modifier sr) (audit_complexity fr),
               f_time_factor = float_mul (time_compression pr) (preparation_factor rr)\<rparr>,
            r_review = review\<rparr>)"
  unfolding generate_case_timeline_def Let_def bind_Inr_iff
  by auto

section \<open>Evaluating \<open>Case1\<close>\<close>

lemma case1_dates:
  "parse_param k_project_start_date (cp_project_start_date case1_params) = Inr 739467"
  "parse_param k_sponsor_agreement_date (cp_sponsor_agreement_date case1_params) = Inr 739481"
  "parse_param k_equity_reform_base_date (cp_equity_reform_base_date case1_params) = Inr 739481"
  "parse_param k_equity_reform_completion_date (cp_equity_reform_completion_date case1_params)
     = Inr 739537"
  "parse_param k_a1_submission_date (cp_a1_submission_date case1_params) = Inr 739628"
  by code_simp+

lemma case1_choices:
  "optional (cp_current_structure case1_params) s_structure_llc = s_structure_llc"
  "optional (cp_project_pace case1_params) s_pace_standard = s_pace_standard"
  "optional (cp_listing_board_hk case1_params) s_main_board = s_main_board"
  "optional (cp_a1_filing_financials case1_params) s_fin_three = s_fin_three"
  "determine_ipo_readiness_level (optional (cp_ipo_readiness case1_params) []) = s_medium_readiness"
  "cp_case_name case1_params = Some s_case1_name"
  by code_simp+

lemma init_generator_simps [simp]:
  "base_templates (init_generator c) = load_base_templates"
  "variation_rules (init_generator c) = load_variation_rules"
  "llm_client (init_generator c) = c"
  by (simp_all add: init_generator_def)

lemma case1_rules:
  "dict_lookup (vr_company_structure (variation_rules (init_generator c)))
       (optional (cp_current_structure case1_params) s_structure_llc)
     = Inr \<lparr>add_modules = [s_equity_reform_tasks], complexity_modifier = float_lit 11 1\<rparr>"
  "dict_lookup (vr_project_pace (variation_rules (init_generator c)))
       (optional (cp_project_pace case1_params) s_pace_standard)
     = Inr \<lparr>time_compression = float_lit 10 1, risk_level = s_risk_medium\<rparr>"
  "dict_lookup (vr_a1_filing_financials (variation_rules (init_generator c)))
       (optional (cp_a1_filing_financials case1_params) s_fin_three)
     = Inr \<lparr>audit_complexity = float_lit 10 1\<rparr>"
  "dict_lookup (vr_ipo_readiness (variation_rules (init_generator c)))
       (determine_ipo_readiness_level (optional (cp_ipo_readiness case1_params) []))
     = Inr \<lparr>preparation_factor = float_lit 10 1\<rparr>"
  by code_simp+

lemma case1_factors:
  "float_mul (time_compression \<lparr>time_compression = float_lit 10 1, risk_level = s_risk_medium\<rparr>)
     (preparation_factor \<lparr>preparation_factor = float_lit 10 1\<rparr>) = 1"
  "float_mul
     (complexity_modifier
        \<lparr>add_modules = [s_equity_reform_tasks], complexity_modifier = float_lit 11 1\<rparr>)
     (audit_complexity \<lparr>audit_complexity = float_lit 10 1\<rparr>)
   = 2476979795053773 / 2251799813685248"
  by code_simp+

lemma case1_collect:
  "collect_tasks (init_generator c)
     \<lparr>add_modules = [s_equity_reform_tasks], complexity_modifier = x\<rparr> = Inr case1_tasks"
proof -
  have "dict_lookup load_base_templates s_core_tasks
      = Inr (the (map_of load_base_templates s_core_tasks))"
    by code_simp
  moreover have "dict_get load_base_templates s_equity_reform_tasks []
      = the (map_of load_base_templates s_equity_reform_tasks)"
    by code_simp
  ultimately show ?thesis
    by (simp add: collect_tasks_def case1_tasks_def)
qed

lemma case1_build:
  "build_timeline 739467 739481 739481 739537 739628 1 case1_tasks = Inr case1_items"
  by code_simp

lemma case1_sort:
  "map pop_sort_date (sort_key sort_date case1_items) = case1_timeline"
  by code_simp

lemma case1_run:
  "generate_case_timeline (init_generator c) case1_params =
     Inr (case1_timeline,
          case1_report (fst (call_llm_for_review (init_generator c) case1_timeline case1_params)),
          fst (call_llm_for_review (init_generator c) case1_timeline case1_params))"
  unfolding generate_case_timeline_Inr_iff
  apply (intro exI conjI)
               apply (rule case1_dates)+
          apply (rule case1_rules)+
      apply (rule case1_collect)
     apply (simp only: case1_factors case1_build)
    apply (simp only: case1_sort)
   apply (rule refl)
  apply (simp only: case1_report_def case1_choices case1_factors)
  apply (simp add: case1_timeline_def)
  done

section \<open>The optional modules\<close>

lemma generate_optional_modules:
  "generate_case_timeline self (p\<lparr>cp_optional_modules := om\<rparr>) =
     map_sum id
       (\<lambda>(timeline, report, review).
          (timeline, report\<lparr>r_params := p\<lparr>cp_optional_modules := om\<rparr>\<rparr>, review))
       (generate_case_timeline self p)"
  unfolding generate_case_timeline_def Let_def call_llm_for_review_def
  by (simp add: bind_def split: sum.splits)

text \<open>
  C10. Two parameter sets that differ in \<open>optional_modules\<close> only (whatever the two
  selections are, with the "none" sentinel or without, or the key missing) give the same
  outcome: the same error, or the same timeline, the same derived characteristics and the
  same review. In particular the selection adds no task.
\<close>

theorem optional_modules_have_no_effect:
  "map_sum id (\<lambda>(timeline, report, review). (timeline, r_features report, review))
     (generate_case_timeline self (p\<lparr>cp_optional_modules := om\<rparr>))
   = map_sum id (\<lambda>(timeline, report, review). (timeline, r_features report, review))
       (generate_case_timeline self (p\<lparr>cp_optional_modules := om'\<rparr>))"
proof -
  have "map_sum id (\<lambda>(timeline, report, review). (timeline, r_features report, review))
          (generate_case_timeline self (p\<lparr>cp_optional_modules := x\<rparr>))
      = map_sum id (\<lambda>(timeline, report, review). (timeline, r_features report, review))
          (generate_case_timeline self p)" for x
    by (cases "generate_case_timeline self p") (auto simp: generate_optional_modules)
  then show ?thesis
    by simp
qed

theorem optional_modules_have_no_effect_witness:
  "map_sum id (\<lambda>(timeline, report, review). (timeline, r_features report, review))
     (generate_case_timeline (init_generator None)
        (case1_params\<lparr>cp_optional_modules := Some [s_gem, s_none]\<rparr>))
   = Inr (case1_timeline, r_features (case1_report default_review), default_review)"
proof -
  have "case1_params\<lparr>cp_optional_modules := Some []\<rparr> = case1_params"
    by (simp add: case1_params_def)
  then show ?thesis
    using optional_modules_have_no_effect
      [where self = "init_generator None" and p = case1_params
         and om = "Some [s_gem, s_none]" and om' = "Some []"]
    by (simp add: case1_run call_llm_for_review_def)
qed

section \<open>The date codec\<close>

text \<open>
  C9. Formatting a parsed date and parsing the text again does not always give the date
  back: \<open>_format_date\<close> prints the year without padding, and \<open>%Y\<close> wants four digits. The
  date 0999-01-01 is accepted in both conventions, is printed with the year \<open>999\<close>, and
  that text is refused.
\<close>

theorem format_then_parse_fails_before_year_1000:
  "parse_date s_iso_0999_01_01 = Inr 364513
   \<and> parse_date s_week_0999_1_1 = Inr 364513
   \<and> format_date 364513 = s_week_999_1_1
   \<and> parse_date s_week_999_1_1 = Inl ValueError"
  by (intro conjI; code_simp)

section \<open>The review\<close>

lemma generate_client:
  "map_sum id fst (generate_case_timeline (self\<lparr>llm_client := c\<rparr>) p)
     = map_sum id fst (generate_case_timeline self p)"
  unfolding generate_case_timeline_def Let_def collect_tasks_def
  by (simp add: bind_def split: sum.splits)

text \<open>
  C6. The review never fails. Without a client it is the fixed verdict that passes, with a
  summary saying that the reviewer is not enabled, and no request is sent. With a client
  whose call raises an exception it is a verdict that passes, with a summary made of the
  failure prefix and the text of the exception. And whether the generator fails, and the
  timeline it returns, do not depend on the client.
\<close>

theorem review_is_never_fatal:
  "(llm_client self = None
      \<longrightarrow> call_llm_for_review self timeline params = (default_review, []))
   \<and> (\<forall>client e. llm_client self = Some client \<and> client timeline = Inl e
      \<longrightarrow> call_llm_for_review self timeline params = (failed_review e, [timeline]))
   \<and> default_review = JObj [(s_review_passed, JBool True), (s_summary, JStr s_llm_disabled)]
   \<and> (\<forall>e. failed_review e
        = JObj [(s_review_passed, JBool True), (s_summary, JStr (s_llm_failed @ e))])
   \<and> (\<forall>c. map_sum id fst (generate_case_timeline (self\<lparr>llm_client := c\<rparr>) p)
        = map_sum id fst (generate_case_timeline self p))"
  by (simp add: call_llm_for_review_def default_review_def failed_review_def generate_client)

theorem review_is_never_fatal_witness:
  "call_llm_for_review (init_generator None) case1_timeline case1_params = (default_review, [])
   \<and> call_llm_for_review (init_generator (Some (\<lambda>timeline. Inl s_gem))) case1_timeline case1_params
       = (JObj [(s_review_passed, JBool True), (s_summary, JStr (s_llm_failed @ s_gem))],
          [case1_timeline])
   \<and> map_sum id fst
        (generate_case_timeline (init_generator (Some (\<lambda>timeline. Inl s_gem))) case1_params)
       = Inr case1_timeline"
proof -
  let ?failing = "\<lambda>timeline :: timeline_entry list. (Inl s_gem :: ustr + json)"
  note t = review_is_never_fatal
    [where self = "init_generator None" and timeline = case1_timeline and params = case1_params
      and p = case1_params]
  note t' = review_is_never_fatal
    [where self = "init_generator (Some ?failing)" and timeline = case1_timeline
      and params = case1_params and p = case1_params]
  have a: "call_llm_for_review (init_generator None) case1_timeline case1_params
      = (default_review, [])"
    using t by simp
  have b: "call_llm_for_review (init_generator (Some ?failing)) case1_timeline case1_params
      = (JObj [(s_review_passed, JBool True), (s_summary, JStr (s_llm_failed @ s_gem))],
         [case1_timeline])"
    using t' by simp
  have "(init_generator None)\<lparr>llm_client := Some ?failing\<rparr> = init_generator (Some ?failing)"
    by (simp add: init_generator_def)
  with t have c: "map_sum id fst (generate_case_timeline (init_generator (Some ?failing)) case1_params)
      = Inr case1_timeline"
    by (simp add: case1_run)
  from a b c show ?thesis
    by blast
qed

section \<open>The batch\<close>

lemma update_new_key: "k \<notin> fst ` set acc \<Longrightarrow> AList.update k v acc = acc @ [(k, v)]"
  by (induction acc) auto

lemma cases_loop_all_succeed:
  assumes "list_all2 (\<lambda>(k, cfg) (k', r). k' = k \<and> generate_case_timeline self cfg = Inr r)
             cases results"
    and "distinct (map fst cases)" and "fst ` set cases \<inter> fst ` set acc = {}"
  shows "cases_loop self cases acc = Inr (acc @ results)"
  using assms
proof (induction cases results arbitrary: acc rule: list_all2_induct)
  case Nil
  then show ?case by simp
next
  case (Cons c cases r results)
  obtain k cfg where c: "c = (k, cfg)" by (cases c)
  obtain k' res where r: "r = (k', res)" by (cases r)
  from Cons.hyps(1) c r have k: "k' = k" and ok: "generate_case_timeline self cfg = Inr res"
    by simp_all
  from Cons.prems c have new: "k \<notin> fst ` set acc" and d: "distinct (map fst cases)"
    and notin: "k \<notin> fst ` set cases"
    by auto
  have "fst ` set cases \<inter> fst ` set (acc @ [(k, res)]) = {}"
    using Cons.prems(2) notin by auto
  with Cons.IH d have "cases_loop self cases (acc @ [(k, res)]) = Inr ((acc @ [(k, res)]) @ results)"
    by blast
  with c r k ok new show ?case
    by (simp add: update_new_key)
qed

lemma cases_loop_first_failure:
  assumes "\<forall>(k, cfg) \<in> set before. \<exists>r. generate_case_timeline self cfg = Inr r"
    and "generate_case_timeline self cfg = Inl e"
  shows "cases_loop self (before @ (k, cfg) # rest) acc = Inl e"
  using assms
proof (induction before arbitrary: acc)
  case Nil
  then show ?case by simp
next
  case (Cons c before)
  obtain k' cfg' where c: "c = (k', cfg')" by (cases c)
  from Cons.prems(1) c obtain r where "generate_case_timeline self cfg' = Inr r"
    by auto
  moreover from Cons have "cases_loop self (before @ (k, cfg) # rest) (AList.update k' r acc) = Inl e"
    by simp
  ultimately show ?case
    by (simp add: c)
qed

lemma bad_date_run: "generate_case_timeline (init_generator c) bad_date_params = Inl ValueError"
proof -
  have "parse_param k_project_start_date (cp_project_start_date bad_date_params) = Inl ValueError"
    by code_simp
  then show ?thesis
    by (simp add: generate_case_timeline_def)
qed

text \<open>
  C7, as the claim states it, fails: in a batch of \<open>Case1\<close> and a second case whose start
  date is not a date, the loop of the batch entry point ends with the error of the second
  case and returns no mapping, although \<open>Case1\<close> alone succeeds.
\<close>

theorem batch_does_not_isolate_cases:
  "generate_case_timeline (init_generator None) case1_params
     = Inr (case1_timeline, case1_report default_review, default_review)
   \<and> generate_case_timeline (init_generator None) bad_date_params = Inl ValueError
   \<and> cases_loop (init_generator None) [(s_case1, case1_params), (s_case2, bad_date_params)] []
     = Inl ValueError"
proof -
  have 1: "generate_case_timeline (init_generator None) case1_params
     = Inr (case1_timeline, case1_report default_review, default_review)"
    by (simp add: case1_run call_llm_for_review_def)
  have "cases_loop (init_generator None) ([(s_case1, case1_params)] @ (s_case2, bad_date_params) # []) []
      = Inl ValueError"
    by (rule cases_loop_first_failure) (simp_all add: 1 bad_date_run)
  with 1 show ?thesis
    by (simp add: bad_date_run)
qed

text \<open>
  C7, amended. The batch entry point takes no mapping: it runs its one built-in case,
  \<open>Case1\<close>, which succeeds with every reviewer, and returns the mapping with that case. Its
  loop runs the cases in order, each from its own parameters: when every case succeeds
  the loop returns every case's result under its identifier, and when a case fails the
  loop ends with the error of the first failing case.
\<close>

theorem batch_runs_all_or_fails:
  "(\<forall>c. generate_predefined_cases (init_generator c)
        = Inr [(s_case1, case1_timeline,
                case1_report (fst (call_llm_for_review (init_generator c) case1_timeline case1_params)),
                fst (call_llm_for_review (init_generator c) case1_timeline case1_params))])
   \<and> (\<forall>cases results.
         distinct (map fst cases)
         \<and> list_all2 (\<lambda>(k, cfg) (k', r). k' = k \<and> generate_case_timeline self cfg = Inr r)
              cases results
         \<longrightarrow> cases_loop self cases [] = Inr results)
   \<and> (\<forall>before k cfg rest e.
         (\<forall>(k', cfg') \<in> set before. \<exists>r. generate_case_timeline self cfg' = Inr r)
         \<and> generate_case_timeline self cfg = Inl e
         \<longrightarrow> cases_loop self (before @ (k, cfg) # rest) [] = Inl e)"
proof (intro conjI allI impI)
  fix c
  show "generate_predefined_cases (init_generator c)
        = Inr [(s_case1, case1_timeline,
                case1_report (fst (call_llm_for_review (init_generator c) case1_timeline case1_params)),
                fst (call_llm_for_review (init_generator c) case1_timeline case1_params))]"
    by (simp add: generate_predefined_cases_def predefined_cases_def case1_run)
next
  fix cases :: "(ustr \<times> case_params) list"
    and results :: "(ustr \<times> timeline_entry list \<times> report \<times> json) list"
  assume "distinct (map fst cases)
         \<and> list_all2 (\<lambda>(k, cfg) (k', r). k' = k \<and> generate_case_timeline self cfg = Inr r)
              cases results"
  then show "cases_loop self cases [] = Inr results"
    using cases_loop_all_succeed [of self cases results "[]"] by simp
next
  fix before rest :: "(ustr \<times> case_params) list" and k :: ustr and cfg e
  assume "(\<forall>(k', cfg') \<in> set before. \<exists>r. generate_case_timeline self cfg' = Inr r)
         \<and> generate_case_timeline self cfg = Inl e"
  then show "cases_loop self (before @ (k, cfg) # rest) [] = Inl e"
    using cases_loop_first_failure [of before self cfg e k rest "[]"] by simp
qed

theorem batch_runs_all_or_fails_witness:
  "generate_predefined_cases (init_generator None)
     = Inr [(s_case1, case1_timeline, case1_report default_review, default_review)]
   \<and> cases_loop (init_generator None) [(s_case1, case1_params), (s_case2, case1_params)] []
     = Inr [(s_case1, case1_timeline, case1_report default_review, default_review),
            (s_case2, case1_timeline, case1_report default_review, default_review)]
   \<and> cases_loop (init_generator None)
        ([(s_case1, case1_params)] @ (s_case2, bad_date_params) # [(s_gem, case1_params)]) []
     = Inl ValueError"
proof -
  note t = batch_runs_all_or_fails [where self = "init_generator None"]
  have run: "generate_case_timeline (init_generator None) case1_params
     = Inr (case1_timeline, case1_report default_review, default_review)"
    by (simp add: case1_run call_llm_for_review_def)
  have a: "generate_predefined_cases (init_generator None)
     = Inr [(s_case1, case1_timeline, case1_report default_review, default_review)]"
    using t [THEN conjunct1, THEN spec, of None] by (simp add: call_llm_for_review_def)
  have d: "distinct (map fst [(s_case1, case1_params), (s_case2, case1_params)])"
    by (simp add: s_case1_def s_case2_def)
  have b: "cases_loop (init_generator None) [(s_case1, case1_params), (s_case2, case1_params)] []
     = Inr [(s_case1, case1_timeline, case1_report default_review, default_review),
            (s_case2, case1_timeline, case1_report default_review, default_review)]"
    by (rule t [THEN conjunct2, THEN conjunct1, THEN spec, THEN spec, THEN mp])
      (use d run in simp)
  have c: "cases_loop (init_generator None)
        ([(s_case1, case1_params)] @ (s_case2, bad_date_params) # [(s_gem, case1_params)]) []
     = Inl ValueError"
    by (rule t [THEN conjunct2, THEN conjunct2, THEN spec, THEN spec, THEN spec, THEN spec,
          THEN spec, THEN mp])
      (simp add: run bad_date_run)
  from a b c show ?thesis
    by blast
qed

section \<open>Keys the tables do not have\<close>

lemma dict_lookup_None: "map_of d k = None \<Longrightarrow> dict_lookup d k = Inl (KeyError k)"
  by (simp add: dict_lookup_def)

lemma dict_lookup_Some: "map_of d k = Some v \<Longrightarrow> dict_lookup d k = Inr v"
  by (simp add: dict_lookup_def)

lemma dict_lookup_cases:
  obtains (missing) "map_of d k = None" "dict_lookup d k = Inl (KeyError k)"
  | (found) v where "map_of d k = Some v" "dict_lookup d k = Inr v"
  by (cases "map_of d k") (auto simp: dict_lookup_def)

lemma generate_unknown_key:
  assumes dates: "parse_param k_project_start_date (cp_project_start_date p) = Inr ps"
      "parse_param k_sponsor_agreement_date (cp_sponsor_agreement_date p) = Inr sa"
      "parse_param k_equity_reform_base_date (cp_equity_reform_base_date p) = Inr eb"
      "parse_param k_equity_reform_completion_date (cp_equity_reform_completion_date p) = Inr ec"
      "parse_param k_a1_submission_date (cp_a1_submission_date p) = Inr a1"
  shows "generate_case_timeline self p =
     (case map_of (vr_company_structure (variation_rules self))
             (optional (cp_current_structure p) s_structure_llc) of
        None \<Rightarrow> Inl (KeyError (optional (cp_current_structure p) s_structure_llc))
      | Some sr \<Rightarrow>
     (case map_of (vr_project_pace (variation_rules self))
             (optional (cp_project_pace p) s_pace_standard) of
        None \<Rightarrow> Inl (KeyError (optional (cp_project_pace p) s_pace_standard))
      | Some pr \<Rightarrow>
     (case map_of (vr_a1_filing_financials (variation_rules self))
             (optional (cp_a1_filing_financials p) s_fin_three) of
        None \<Rightarrow> Inl (KeyError (optional (cp_a1_filing_financials p) s_fin_three))
      | Some fr \<Rightarrow>
     (case map_of (vr_ipo_readiness (variation_rules self))
             (determine_ipo_readiness_level (optional (cp_ipo_readiness p) [])) of
        None \<Rightarrow> Inl (KeyError (determine_ipo_readiness_level (optional (cp_ipo_readiness p) [])))
      | Some rr \<Rightarrow>
     (case map_of (base_templates self) s_core_tasks of
        None \<Rightarrow> Inl (KeyError s_core_tasks)
      | Some core \<Rightarrow> generate_case_timeline self p)))))"
  using dates
  by (simp add: generate_case_timeline_def Let_def dict_lookup_def collect_tasks_def
      split: option.splits)

lemma generate_unknown_key_fails:
  assumes "map_of (vr_company_structure (variation_rules self))
             (optional (cp_current_structure p) s_structure_llc) = None
         \<or> map_of (vr_project_pace (variation_rules self))
             (optional (cp_project_pace p) s_pace_standard) = None
         \<or> map_of (vr_a1_filing_financials (variation_rules self))
             (optional (cp_a1_filing_financials p) s_fin_three) = None
         \<or> map_of (vr_ipo_readiness (variation_rules self))
             (determine_ipo_readiness_level (optional (cp_ipo_readiness p) [])) = None
         \<or> map_of (base_templates self) s_core_tasks = None"
  shows "\<exists>e. generate_case_timeline self p = Inl e"
proof (cases "generate_case_timeline self p")
  case (Inl e)
  then show ?thesis by simp
next
  case (Inr r)
  obtain timeline report review where "r = (timeline, report, review)"
    by (cases r)
  with Inr have "generate_case_timeline self p = Inr (timeline, report, review)"
    by simp
  then have "map_of (vr_company_structure (variation_rules self))
             (optional (cp_current_structure p) s_structure_llc) \<noteq> None
         \<and> map_of (vr_project_pace (variation_rules self))
             (optional (cp_project_pace p) s_pace_standard) \<noteq> None
         \<and> map_of (vr_a1_filing_financials (variation_rules self))
             (optional (cp_a1_filing_financials p) s_fin_three) \<noteq> None
         \<and> map_of (vr_ipo_readiness (variation_rules self))
             (determine_ipo_readiness_level (optional (cp_ipo_readiness p) [])) \<noteq> None
         \<and> map_of (base_templates self) s_core_tasks \<noteq> None"
    unfolding generate_case_timeline_Inr_iff collect_tasks_def bind_Inr_iff
    by (auto simp: dict_lookup_def split: option.splits)
  with assms show ?thesis
    by blast
qed

lemma readiness_level_known:
  "map_of (vr_ipo_readiness load_variation_rules) (determine_ipo_readiness_level xs) \<noteq> None"
proof -
  have "map_of (vr_ipo_readiness load_variation_rules) s_low_readiness \<noteq> None"
    "map_of (vr_ipo_readiness load_variation_rules) s_high_readiness \<noteq> None"
    "map_of (vr_ipo_readiness load_variation_rules) s_medium_readiness \<noteq> None"
    by code_simp+
  then show ?thesis
    by (simp add: determine_ipo_readiness_level_def)
qed

text \<open>
  C8, as the claim states it, fails for the task groups: with templates that lack the group
  \<open>equity_reform_tasks\<close>, which the rule of the structure of \<open>Case1\<close> names, the generator
  does not fail; it returns the timeline of the three core tasks.
\<close>

theorem missing_task_group_is_silent:
  "map_of (base_templates generator_without_equity_group) s_equity_reform_tasks = None
   \<and> map_option add_modules
        (map_of (vr_company_structure (variation_rules generator_without_equity_group))
           (optional (cp_current_structure case1_params) s_structure_llc))
       = Some [s_equity_reform_tasks]
   \<and> map_sum id (\<lambda>(timeline, report, review). map e_task timeline)
        (generate_case_timeline generator_without_equity_group case1_params)
       = Inr [s_task_kickoff, s_task_sponsor, s_task_a1]"
proof (intro conjI)
  show "map_of (base_templates generator_without_equity_group) s_equity_reform_tasks = None"
    by code_simp
  show "map_option add_modules
        (map_of (vr_company_structure (variation_rules generator_without_equity_group))
           (optional (cp_current_structure case1_params) s_structure_llc))
       = Some [s_equity_reform_tasks]"
    by code_simp
  have tasks: "collect_tasks generator_without_equity_group
        \<lparr>add_modules = [s_equity_reform_tasks], complexity_modifier = float_lit 11 1\<rparr>
      = Inr (take 3 case1_tasks)"
    by code_simp
  have build: "build_timeline 739467 739481 739481 739537 739628 1 (take 3 case1_tasks)
      = Inr (take 3 case1_items)"
    by code_simp
  have sorted: "map e_task (map pop_sort_date (sort_key sort_date (take 3 case1_items)))
      = [s_task_kickoff, s_task_sponsor, s_task_a1]"
    by code_simp
  have rules: "variation_rules generator_without_equity_group = variation_rules (init_generator None)"
    by (simp add: generator_without_equity_group_def)
  have "\<exists>report review. generate_case_timeline generator_without_equity_group case1_params
      = Inr (map pop_sort_date (sort_key sort_date (take 3 case1_items)), report, review)"
    unfolding generate_case_timeline_Inr_iff rules
    apply (intro exI conjI)
                 apply (rule case1_dates)+
            apply (rule case1_rules)+
        apply (rule tasks)
       apply (simp only: case1_factors build)
      apply (rule refl)+
    done
  then show "map_sum id (\<lambda>(timeline, report, review). map e_task timeline)
        (generate_case_timeline generator_without_equity_group case1_params)
       = Inr [s_task_kickoff, s_task_sponsor, s_task_a1]"
    using sorted by auto
qed

text \<open>
  C8, amended. A structure, pace or disclosure scope that is not a key of its rule table,
  a readiness level that is not a key of the readiness table and templates without the
  core group make the generator fail, whatever the other parameters are; when the five
  dates parse, the error is the \<open>KeyError\<close> of the first such key. The level the classifier
  returns is always a key of the built-in readiness table. A task group that a structure
  rule names and the templates do not have contributes no task and raises nothing.
\<close>

theorem unknown_keys_are_fatal_except_task_groups:
  "(map_of (vr_company_structure (variation_rules self))
        (optional (cp_current_structure p) s_structure_llc) = None
      \<or> map_of (vr_project_pace (variation_rules self))
        (optional (cp_project_pace p) s_pace_standard) = None
      \<or> map_of (vr_a1_filing_financials (variation_rules self))
        (optional (cp_a1_filing_financials p) s_fin_three) = None
      \<or> map_of (vr_ipo_readiness (variation_rules self))
        (determine_ipo_readiness_level (optional (cp_ipo_readiness p) [])) = None
      \<or> map_of (base_templates self) s_core_tasks = None
    \<longrightarrow> (\<exists>e. generate_case_timeline self p = Inl e))
   \<and> ((\<exists>ps. parse_param k_project_start_date (cp_project_start_date p) = Inr ps)
      \<and> (\<exists>sa. parse_param k_sponsor_agreement_date (cp_sponsor_agreement_date p) = Inr sa)
      \<and> (\<exists>eb. parse_param k_equity_reform_base_date (cp_equity_reform_base_date p) = Inr eb)
      \<and> (\<exists>ec. parse_param k_equity_reform_completion_date (cp_equity_reform_completion_date p)
             = Inr ec)
      \<and> (\<exists>a1. parse_param k_a1_submission_date (cp_a1_submission_date p) = Inr a1)
    \<longrightarrow> generate_case_timeline self p =
     (case map_of (vr_company_structure (variation_rules self))
             (optional (cp_current_structure p) s_structure_llc) of
        None \<Rightarrow> Inl (KeyError (optional (cp_current_structure p) s_structure_llc))
      | Some sr \<Rightarrow>
     (case map_of (vr_project_pace (variation_rules self))
             (optional (cp_project_pace p) s_pace_standard) of
        None \<Rightarrow> Inl (KeyError (optional (cp_project_pace p) s_pace_standard))
      | Some pr \<Rightarrow>
     (case map_of (vr_a1_filing_financials (variation_rules self))
             (optional (cp_a1_filing_financials p) s_fin_three) of
        None \<Rightarrow> Inl (KeyError (optional (cp_a1_filing_financials p) s_fin_three))
      | Some fr \<Rightarrow>
     (case map_of (vr_ipo_readiness (variation_rules self))
             (determine_ipo_readiness_level (optional (cp_ipo_readiness p) [])) of
        None \<Rightarrow> Inl (KeyError (determine_ipo_readiness_level (optional (cp_ipo_readiness p) [])))
      | Some rr \<Rightarrow>
     (case map_of (base_templates self) s_core_tasks of
        None \<Rightarrow> Inl (KeyError s_core_tasks)
      | Some core \<Rightarrow> generate_case_timeline self p))))))
   \<and> (\<forall>xs. map_of (vr_ipo_readiness load_variation_rules) (determine_ipo_readiness_level xs)
         \<noteq> None)
   \<and> (\<forall>sr core. map_of (base_templates self) s_core_tasks = Some core
        \<longrightarrow> collect_tasks self sr =
            Inr (core @ concat (map (\<lambda>g. case map_of (base_templates self) g of
                                            None \<Rightarrow> [] | Some tasks \<Rightarrow> tasks)
                                  (add_modules sr))))"
proof (intro conjI impI allI)
  assume "map_of (vr_company_structure (variation_rules self))
        (optional (cp_current_structure p) s_structure_llc) = None
      \<or> map_of (vr_project_pace (variation_rules self))
        (optional (cp_project_pace p) s_pace_standard) = None
      \<or> map_of (vr_a1_filing_financials (variation_rules self))
        (optional (cp_a1_filing_financials p) s_fin_three) = None
      \<or> map_of (vr_ipo_readiness (variation_rules self))
        (determine_ipo_readiness_level (optional (cp_ipo_readiness p) [])) = None
      \<or> map_of (base_templates self) s_core_tasks = None"
  then show "\<exists>e. generate_case_timeline self p = Inl e"
    by (rule generate_unknown_key_fails)
next
  assume "(\<exists>ps. parse_param k_project_start_date (cp_project_start_date p) = Inr ps)
      \<and> (\<exists>sa. parse_param k_sponsor_agreement_date (cp_sponsor_agreement_date p) = Inr sa)
      \<and> (\<exists>eb. parse_param k_equity_reform_base_date (cp_equity_reform_base_date p) = Inr eb)
      \<and> (\<exists>ec. parse_param k_equity_reform_completion_date (cp_equity_reform_completion_date p)
             = Inr ec)
      \<and> (\<exists>a1. parse_param k_a1_submission_date (cp_a1_submission_date p) = Inr a1)"
  then obtain ps sa eb ec a1 where
    "parse_param k_project_start_date (cp_project_start_date p) = Inr ps"
    "parse_param k_sponsor_agreement_date (cp_sponsor_agreement_date p) = Inr sa"
    "parse_param k_equity_reform_base_date (cp_equity_reform_base_date p) = Inr eb"
    "parse_param k_equity_reform_completion_date (cp_equity_reform_completion_date p) = Inr ec"
    "parse_param k_a1_submission_date (cp_a1_submission_date p) = Inr a1"
    by blast
  then show "generate_case_timeline self p =
     (case map_of (vr_company_structure (variation_rules self))
             (optional (cp_current_structure p) s_structure_llc) of
        None \<Rightarrow> Inl (KeyError (optional (cp_current_structure p) s_structure_llc))
      | Some sr \<Rightarrow>
     (case map_of (vr_project_pace (variation_rules self))
             (optional (cp_project_pace p) s_pace_standard) of
        None \<Rightarrow> Inl (KeyError (optional (cp_project_pace p) s_pace_standard))
      | Some pr \<Rightarrow>
     (case map_of (vr_a1_filing_financials (variation_rules self))
             (optional (cp_a1_filing_financials p) s_fin_three) of
        None \<Rightarrow> Inl (KeyError (optional (cp_a1_filing_financials p) s_fin_three))
      | Some fr \<Rightarrow>
     (case map_of (vr_ipo_readiness (variation_rules self))
             (determine_ipo_readiness_level (optional (cp_ipo_readiness p) [])) of
        None \<Rightarrow> Inl (KeyError (determine_ipo_readiness_level (optional (cp_ipo_readiness p) [])))
      | Some rr \<Rightarrow>
     (case map_of (base_templates self) s_core_tasks of
        None \<Rightarrow> Inl (KeyError s_core_tasks)
      | Some core \<Rightarrow> generate_case_timeline self p)))))"
    by (rule generate_unknown_key)
next
  fix xs
  show "map_of (vr_ipo_readiness load_variation_rules) (determine_ipo_readiness_level xs) \<noteq> None"
    by (rule readiness_level_known)
next
  fix sr core
  assume "map_of (base_templates self) s_core_tasks = Some core"
  then show "collect_tasks self sr =
            Inr (core @ concat (map (\<lambda>g. case map_of (base_templates self) g of
                                            None \<Rightarrow> [] | Some tasks \<Rightarrow> tasks)
                                  (add_modules sr)))"
    by (simp add: collect_tasks_def dict_lookup_def dict_get_def)
qed

theorem unknown_keys_are_fatal_except_task_groups_witness:
  "generate_case_timeline (init_generator None) (case1_params\<lparr>cp_project_pace := Some s_gem\<rparr>)
     = Inl (KeyError s_gem)
   \<and> map_of (base_templates generator_without_equity_group) s_equity_reform_tasks = None
   \<and> collect_tasks generator_without_equity_group
        \<lparr>add_modules = [s_equity_reform_tasks], complexity_modifier = 1\<rparr>
     = Inr (the (map_of load_base_templates s_core_tasks))"
proof -
  let ?p = "case1_params\<lparr>cp_project_pace := Some s_gem\<rparr>"
  have dates: "(\<exists>ps. parse_param k_project_start_date (cp_project_start_date ?p) = Inr ps)
      \<and> (\<exists>sa. parse_param k_sponsor_agreement_date (cp_sponsor_agreement_date ?p) = Inr sa)
      \<and> (\<exists>eb. parse_param k_equity_reform_base_date (cp_equity_reform_base_date ?p) = Inr eb)
      \<and> (\<exists>ec. parse_param k_equity_reform_completion_date (cp_equity_reform_completion_date ?p)
             = Inr ec)
      \<and> (\<exists>a1. parse_param k_a1_submission_date (cp_a1_submission_date ?p) = Inr a1)"
    using case1_dates by simp
  have struct: "map_of (vr_company_structure (variation_rules (init_generator None)))
        (optional (cp_current_structure ?p) s_structure_llc)
      = Some \<lparr>add_modules = [s_equity_reform_tasks], complexity_modifier = float_lit 11 1\<rparr>"
    by code_simp
  have pace: "optional (cp_project_pace ?p) s_pace_standard = s_gem"
    "map_of (vr_project_pace (variation_rules (init_generator None))) s_gem = None"
    by code_simp+
  note t = unknown_keys_are_fatal_except_task_groups [where self = "init_generator None" and p = ?p]
  from t [THEN conjunct2, THEN conjunct1, THEN mp, OF dates]
  have a: "generate_case_timeline (init_generator None) ?p = Inl (KeyError s_gem)"
    by (simp only: struct pace option.case)
  have b: "map_of (base_templates generator_without_equity_group) s_equity_reform_tasks = None"
    by code_simp
  have core: "map_of (base_templates generator_without_equity_group) s_core_tasks
      = Some (the (map_of load_base_templates s_core_tasks))"
    by (simp add: generator_without_equity_group_def)
  note t' = unknown_keys_are_fatal_except_task_groups
    [where self = generator_without_equity_group and p = case1_params]
  from t' [THEN conjunct2, THEN conjunct2, THEN conjunct2, THEN spec, THEN spec, THEN mp, OF core]
  have c: "collect_tasks generator_without_equity_group
        \<lparr>add_modules = [s_equity_reform_tasks], complexity_modifier = 1\<rparr>
     = Inr (the (map_of load_base_templates s_core_tasks))"
    by (simp add: b)
  from a b c show ?thesis
    by blast
qed

section \<open>The entries of the timeline\<close>

lemma list_all2_right:
  "list_all2 P xs ys \<Longrightarrow> y \<in> set ys \<Longrightarrow> \<exists>x \<in> set xs. P x y"
  by (induction xs ys rule: list_all2_induct) auto

lemma list_all2_left:
  "list_all2 P xs ys \<Longrightarrow> x \<in> set xs \<Longrightarrow> \<exists>y \<in> set ys. P x y"
  by (induction xs ys rule: list_all2_induct) auto

lemma pop_sort_date_simps [simp]:
  "e_date (pop_sort_date i) = e_date i" "e_workstream (pop_sort_date i) = e_workstream i"
  "e_task (pop_sort_date i) = e_task i" "e_lead (pop_sort_date i) = e_lead i"
  by (simp_all add: pop_sort_date_def)

text \<open>
  A successful run, seen from the timeline: the entries are the sorted items without their
  keys, and the items are what the loop body makes of the tasks, in their order.
\<close>

lemma generate_case_timeline_items:
  assumes "generate_case_timeline self p = Inr (timeline, report, review)"
  obtains ps sa eb ec a1 sr tasks items where
    "parse_param k_project_start_date (cp_project_start_date p) = Inr ps"
    "parse_param k_sponsor_agreement_date (cp_sponsor_agreement_date p) = Inr sa"
    "parse_param k_equity_reform_base_date (cp_equity_reform_base_date p) = Inr eb"
    "parse_param k_equity_reform_completion_date (cp_equity_reform_completion_date p) = Inr ec"
    "parse_param k_a1_submission_date (cp_a1_submission_date p) = Inr a1"
    "dict_lookup (vr_company_structure (variation_rules self))
       (optional (cp_current_structure p) s_structure_llc) = Inr sr"
    "collect_tasks self sr = Inr tasks"
    "list_all2 (\<lambda>t item. timeline_item ps sa eb ec a1 (f_time_factor (r_features report)) t
        = Inr item) tasks items"
    "timeline = map pop_sort_date (sort_key sort_date items)"
proof -
  from assms obtain ps sa eb ec a1 sr and pr :: pace_rule and fr :: financial_rule
    and rr :: readiness_rule and tasks items where
    d: "parse_param k_project_start_date (cp_project_start_date p) = Inr ps"
      "parse_param k_sponsor_agreement_date (cp_sponsor_agreement_date p) = Inr sa"
      "parse_param k_equity_reform_base_date (cp_equity_reform_base_date p) = Inr eb"
      "parse_param k_equity_reform_completion_date (cp_equity_reform_completion_date p) = Inr ec"
      "parse_param k_a1_submission_date (cp_a1_submission_date p) = Inr a1"
    and sr: "dict_lookup (vr_company_structure (variation_rules self))
       (optional (cp_current_structure p) s_structure_llc) = Inr sr"
    and tasks: "collect_tasks self sr = Inr tasks"
    and build: "build_timeline ps sa eb ec a1
       (float_mul (time_compression pr) (preparation_factor rr)) tasks = Inr items"
    and tl: "timeline = map pop_sort_date (sort_key sort_date items)"
    and tf: "f_time_factor (r_features report)
       = float_mul (time_compression pr) (preparation_factor rr)"
    unfolding generate_case_timeline_Inr_iff by (elim exE conjE) simp
  from build have all2: "list_all2 (\<lambda>t item. timeline_item ps sa eb ec a1
      (f_time_factor (r_features report)) t = Inr item) tasks items"
    unfolding tf by (rule build_timeline_Inr)
  show thesis
    by (rule that [OF d sr tasks all2 tl])
qed


lemma timeline_entry_origin:
  assumes "list_all2 (\<lambda>t item. timeline_item ps sa eb ec a1 tf t = Inr item) tasks items"
    and "e \<in> set (map pop_sort_date (sort_key sort_date items))"
  obtains t item where "t \<in> set tasks" "item \<in> set items"
    "timeline_item ps sa eb ec a1 tf t = Inr item" "e = pop_sort_date item"
proof -
  from assms(2) have "e \<in> pop_sort_date ` set items"
    by simp
  then obtain item where item: "item \<in> set items" and e: "e = pop_sort_date item"
    by (rule imageE)
  from list_all2_right [OF assms(1) item]
  obtain t where t: "t \<in> set tasks" and ok: "timeline_item ps sa eb ec a1 tf t = Inr item"
    by (rule bexE)
  show thesis
    by (rule that [OF t item ok e])
qed

lemma task_has_entry:
  assumes "list_all2 (\<lambda>t item. timeline_item ps sa eb ec a1 tf t = Inr item) tasks items"
    and "t \<in> set tasks"
  obtains item where "item \<in> set items" "timeline_item ps sa eb ec a1 tf t = Inr item"
    "pop_sort_date item \<in> set (map pop_sort_date (sort_key sort_date items))"
proof -
  from list_all2_left [OF assms]
  obtain item where item: "item \<in> set items" and ok: "timeline_item ps sa eb ec a1 tf t = Inr item"
    by (rule bexE)
  from item have "pop_sort_date item \<in> set (map pop_sort_date (sort_key sort_date items))"
    by simp
  with item ok show thesis
    by (rule that)
qed

lemma builtin_milestones:
  "startswith s_task_sponsor s_prefix_sponsor" "startswith s_task_equity_base s_prefix_equity_base"
  "startswith s_task_equity_done s_prefix_equity_done" "startswith s_task_a1 s_prefix_a1"
  "\<not> is_milestone_task s_task_kickoff"
  by code_simp+

text \<open>
  When the run succeeds, the overrides do their work: every entry of a milestone task (a
  task whose text starts with the prefix of the sponsor appointment, of the equity-reform
  base date, of the completion of the equity reform, or of the A1 filing) is dated with
  the anchor date of its role as the parameters give it, printed by the date codec. Every
  task of the working list has its entry in the timeline. The four milestone tasks of the
  built-in templates start with their prefixes.
\<close>

theorem milestone_tasks_take_anchor_dates:
  assumes "generate_case_timeline self p = Inr (timeline, report, review)"
  shows "\<exists>sa eb ec a1 sr tasks.
      parse_param k_sponsor_agreement_date (cp_sponsor_agreement_date p) = Inr sa
    \<and> parse_param k_equity_reform_base_date (cp_equity_reform_base_date p) = Inr eb
    \<and> parse_param k_equity_reform_completion_date (cp_equity_reform_completion_date p) = Inr ec
    \<and> parse_param k_a1_submission_date (cp_a1_submission_date p) = Inr a1
    \<and> (\<forall>e \<in> set timeline.
          (startswith (e_task e) s_prefix_sponsor \<longrightarrow> e_date e = format_date sa)
        \<and> (startswith (e_task e) s_prefix_equity_base \<longrightarrow> e_date e = format_date eb)
        \<and> (startswith (e_task e) s_prefix_equity_done \<longrightarrow> e_date e = format_date ec)
        \<and> (startswith (e_task e) s_prefix_a1 \<longrightarrow> e_date e = format_date a1))
    \<and> dict_lookup (vr_company_structure (variation_rules self))
          (optional (cp_current_structure p) s_structure_llc) = Inr sr
    \<and> collect_tasks self sr = Inr tasks
    \<and> (\<forall>t \<in> set tasks. \<exists>e \<in> set timeline.
          e_task e = t_task t \<and> e_workstream e = t_workstream t \<and> e_lead e = t_lead t)
    \<and> startswith s_task_sponsor s_prefix_sponsor
    \<and> startswith s_task_equity_base s_prefix_equity_base
    \<and> startswith s_task_equity_done s_prefix_equity_done
    \<and> startswith s_task_a1 s_prefix_a1"
proof -
  from assms obtain ps sa eb ec a1 sr tasks items where
    d: "parse_param k_sponsor_agreement_date (cp_sponsor_agreement_date p) = Inr sa"
      "parse_param k_equity_reform_base_date (cp_equity_reform_base_date p) = Inr eb"
      "parse_param k_equity_reform_completion_date (cp_equity_reform_completion_date p) = Inr ec"
      "parse_param k_a1_submission_date (cp_a1_submission_date p) = Inr a1"
    and sr: "dict_lookup (vr_company_structure (variation_rules self))
       (optional (cp_current_structure p) s_structure_llc) = Inr sr"
    and tasks: "collect_tasks self sr = Inr tasks"
    and all2: "list_all2 (\<lambda>t item. timeline_item ps sa eb ec a1
        (f_time_factor (r_features report)) t = Inr item) tasks items"
    and tl: "timeline = map pop_sort_date (sort_key sort_date items)"
    by (rule generate_case_timeline_items)
  have all_dates: "\<forall>e \<in> set timeline.
          (startswith (e_task e) s_prefix_sponsor \<longrightarrow> e_date e = format_date sa)
        \<and> (startswith (e_task e) s_prefix_equity_base \<longrightarrow> e_date e = format_date eb)
        \<and> (startswith (e_task e) s_prefix_equity_done \<longrightarrow> e_date e = format_date ec)
        \<and> (startswith (e_task e) s_prefix_a1 \<longrightarrow> e_date e = format_date a1)"
  proof (rule ballI)
    fix e
    assume "e \<in> set timeline"
    with all2 obtain t item where
      item: "timeline_item ps sa eb ec a1 (f_time_factor (r_features report)) t = Inr item"
      and e: "e = pop_sort_date item"
      unfolding tl by (rule timeline_entry_origin)
    note facts = timeline_item_Inr [OF item]
    have "e_task e = t_task t" "e_date e = format_date (sort_date item)"
      by (simp_all add: e facts(2) facts(4))
    with facts(5-8)
    show "(startswith (e_task e) s_prefix_sponsor \<longrightarrow> e_date e = format_date sa)
        \<and> (startswith (e_task e) s_prefix_equity_base \<longrightarrow> e_date e = format_date eb)
        \<and> (startswith (e_task e) s_prefix_equity_done \<longrightarrow> e_date e = format_date ec)
        \<and> (startswith (e_task e) s_prefix_a1 \<longrightarrow> e_date e = format_date a1)"
      by simp
  qed
  have all_present: "\<forall>t \<in> set tasks. \<exists>e \<in> set timeline.
          e_task e = t_task t \<and> e_workstream e = t_workstream t \<and> e_lead e = t_lead t"
  proof (rule ballI)
    fix t
    assume "t \<in> set tasks"
    with all2 obtain item where
      item: "timeline_item ps sa eb ec a1 (f_time_factor (r_features report)) t = Inr item"
      and e: "pop_sort_date item \<in> set timeline"
      unfolding tl by (rule task_has_entry)
    note facts = timeline_item_Inr [OF item]
    from e show "\<exists>e \<in> set timeline.
          e_task e = t_task t \<and> e_workstream e = t_workstream t \<and> e_lead e = t_lead t"
      by (rule bexI [rotated]) (simp add: facts(1-3))
  qed
  show ?thesis
    by (intro exI conjI) (rule d all_dates sr tasks all_present builtin_milestones)+
qed

lemma case1_run_disabled:
  "generate_case_timeline (init_generator None) case1_params
     = Inr (case1_timeline, case1_report default_review, default_review)"
  by (simp add: case1_run call_llm_for_review_def)

lemma case1_timeline_entries:
  "case1_timeline ! 0 \<in> set case1_timeline" "e_task (case1_timeline ! 0) = s_task_kickoff"
  "case1_timeline ! 1 \<in> set case1_timeline" "e_task (case1_timeline ! 1) = s_task_sponsor"
  "case1_timeline ! 2 \<in> set case1_timeline" "e_task (case1_timeline ! 2) = s_task_equity_base"
  "case1_timeline ! 3 \<in> set case1_timeline" "e_task (case1_timeline ! 3) = s_task_equity_done"
  "case1_timeline ! 4 \<in> set case1_timeline" "e_task (case1_timeline ! 4) = s_task_a1"
  by (simp_all add: case1_timeline_def)

section \<open>The candidate date of a milestone task\<close>

lemma generate_case_timeline_loop_error:
  assumes "parse_param k_project_start_date (cp_project_start_date p) = Inr ps"
    and "parse_param k_sponsor_agreement_date (cp_sponsor_agreement_date p) = Inr sa"
    and "parse_param k_equity_reform_base_date (cp_equity_reform_base_date p) = Inr eb"
    and "parse_param k_equity_reform_completion_date (cp_equity_reform_completion_date p) = Inr ec"
    and "parse_param k_a1_submission_date (cp_a1_submission_date p) = Inr a1"
    and "dict_lookup (vr_company_structure (variation_rules self))
           (optional (cp_current_structure p) s_structure_llc) = Inr sr"
    and "dict_lookup (vr_project_pace (variation_rules self))
           (optional (cp_project_pace p) s_pace_standard) = Inr pr"
    and "dict_lookup (vr_a1_filing_financials (variation_rules self))
           (optional (cp_a1_filing_financials p) s_fin_three) = Inr fr"
    and "dict_lookup (vr_ipo_readiness (variation_rules self))
           (determine_ipo_readiness_level (optional (cp_ipo_readiness p) [])) = Inr rr"
    and "collect_tasks self sr = Inr tasks"
    and "build_timeline ps sa eb ec a1
           (float_mul (time_compression pr) (preparation_factor rr)) tasks = Inl e"
  shows "generate_case_timeline self p = Inl e"
  unfolding generate_case_timeline_def Let_def
  using assms by simp

lemma late_dates:
  "parse_param k_project_start_date (cp_project_start_date late_params) = Inr 3651908"
  "parse_param k_sponsor_agreement_date (cp_sponsor_agreement_date late_params) = Inr 3651922"
  "parse_param k_equity_reform_base_date (cp_equity_reform_base_date late_params) = Inr 3651922"
  "parse_param k_equity_reform_completion_date (cp_equity_reform_completion_date late_params)
     = Inr 3651978"
  "parse_param k_a1_submission_date (cp_a1_submission_date late_params) = Inr 3652048"
  by code_simp+

lemma late_dates_aggressive:
  "parse_param k_project_start_date (cp_project_start_date late_params_aggressive) = Inr 3651908"
  "parse_param k_sponsor_agreement_date (cp_sponsor_agreement_date late_params_aggressive)
     = Inr 3651922"
  "parse_param k_equity_reform_base_date (cp_equity_reform_base_date late_params_aggressive)
     = Inr 3651922"
  "parse_param k_equity_reform_completion_date
     (cp_equity_reform_completion_date late_params_aggressive) = Inr 3651978"
  "parse_param k_a1_submission_date (cp_a1_submission_date late_params_aggressive) = Inr 3652048"
  by code_simp+

lemma late_rules:
  "dict_lookup (vr_company_structure (variation_rules (init_generator c)))
       (optional (cp_current_structure late_params) s_structure_llc)
     = Inr \<lparr>add_modules = [s_equity_reform_tasks], complexity_modifier = float_lit 11 1\<rparr>"
  "dict_lookup (vr_project_pace (variation_rules (init_generator c)))
       (optional (cp_project_pace late_params) s_pace_standard)
     = Inr \<lparr>time_compression = float_lit 10 1, risk_level = s_risk_medium\<rparr>"
  "dict_lookup (vr_a1_filing_financials (variation_rules (init_generator c)))
       (optional (cp_a1_filing_financials late_params) s_fin_three)
     = Inr \<lparr>audit_complexity = float_lit 10 1\<rparr>"
  "dict_lookup (vr_ipo_readiness (variation_rules (init_generator c)))
       (determine_ipo_readiness_level (optional (cp_ipo_readiness late_params) []))
     = Inr \<lparr>preparation_factor = float_lit 10 1\<rparr>"
  by code_simp+

lemma late_rules_aggressive:
  "dict_lookup (vr_company_structure (variation_rules (init_generator c)))
       (optional (cp_current_structure late_params_aggressive) s_structure_llc)
     = Inr \<lparr>add_modules = [s_equity_reform_tasks], complexity_modifier = float_lit 11 1\<rparr>"
  "dict_lookup (vr_project_pace (variation_rules (init_generator c)))
       (optional (cp_project_pace late_params_aggressive) s_pace_standard)
     = Inr \<lparr>time_compression = float_lit 85 2, risk_level = s_risk_high\<rparr>"
  "dict_lookup (vr_a1_filing_financials (variation_rules (init_generator c)))
       (optional (cp_a1_filing_financials late_params_aggressive) s_fin_three)
     = Inr \<lparr>audit_complexity = float_lit 10 1\<rparr>"
  "dict_lookup (vr_ipo_readiness (variation_rules (init_generator c)))
       (determine_ipo_readiness_level (optional (cp_ipo_readiness late_params_aggressive) []))
     = Inr \<lparr>preparation_factor = float_lit 10 1\<rparr>"
  by code_simp+

lemma late_build:
  "build_timeline 3651908 3651922 3651922 3651978 3652048
     (float_mul (time_compression \<lparr>time_compression = float_lit 10 1, risk_level = s_risk_medium\<rparr>)
        (preparation_factor \<lparr>preparation_factor = float_lit 10 1\<rparr>))
     case1_tasks = Inl OverflowError"
  by code_simp

lemma late_build_aggressive:
  "map_sum id (\<lambda>items. map (\<lambda>e. (e_task e, e_date e)) (map pop_sort_date (sort_key sort_date items)))
     (build_timeline 3651908 3651922 3651922 3651978 3652048
        (float_mul (time_compression \<lparr>time_compression = float_lit 85 2, risk_level = s_risk_high\<rparr>)
           (preparation_factor \<lparr>preparation_factor = float_lit 10 1\<rparr>))
        case1_tasks)
   = Inr [(s_task_kickoff, s_date_9999_8_2), (s_task_sponsor, s_date_9999_8_16),
          (s_task_equity_base, s_date_9999_8_16), (s_task_equity_done, s_date_9999_10_11),
          (s_task_a1, s_date_9999_12_20)]"
  by code_simp

lemma late_run: "generate_case_timeline (init_generator c) late_params = Inl OverflowError"
  by (rule generate_case_timeline_loop_error
      [OF late_dates late_rules case1_collect late_build])

lemma late_run_aggressive:
  "map_sum id (\<lambda>(timeline, report, review). map (\<lambda>e. (e_task e, e_date e)) timeline)
     (generate_case_timeline (init_generator c) late_params_aggressive)
   = Inr [(s_task_kickoff, s_date_9999_8_2), (s_task_sponsor, s_date_9999_8_16),
          (s_task_equity_base, s_date_9999_8_16), (s_task_equity_done, s_date_9999_10_11),
          (s_task_a1, s_date_9999_12_20)]"
proof -
  let ?tf = "float_mul
      (time_compression \<lparr>time_compression = float_lit 85 2, risk_level = s_risk_high\<rparr>)
      (preparation_factor \<lparr>preparation_factor = float_lit 10 1\<rparr>)"
  from late_build_aggressive obtain items where
    items: "build_timeline 3651908 3651922 3651922 3651978 3652048 ?tf case1_tasks = Inr items"
    and shown: "map (\<lambda>e. (e_task e, e_date e)) (map pop_sort_date (sort_key sort_date items))
      = [(s_task_kickoff, s_date_9999_8_2), (s_task_sponsor, s_date_9999_8_16),
         (s_task_equity_base, s_date_9999_8_16), (s_task_equity_done, s_date_9999_10_11),
         (s_task_a1, s_date_9999_12_20)]"
    by (cases "build_timeline 3651908 3651922 3651922 3651978 3652048 ?tf case1_tasks") simp_all
  have "\<exists>report review. generate_case_timeline (init_generator c) late_params_aggressive
      = Inr (map pop_sort_date (sort_key sort_date items), report, review)"
    unfolding generate_case_timeline_Inr_iff
    apply (intro exI conjI)
                 apply (rule late_dates_aggressive)+
            apply (rule late_rules_aggressive)+
        apply (rule case1_collect)
       apply (rule items)
      apply (rule refl)+
    done
  then show ?thesis
    using shown by auto
qed

text \<open>
  C1. The claim fails on the code for a valid Parameter Set. The loop computes the
  candidate date of every task, the milestone tasks too, before it replaces the date of a
  milestone task by its anchor date, and the candidate must be a date of the years 1 to
  9999. With a project start of 2 Aug 9999 and the A1 filing anchored at 20 Dec 9999 (all
  five anchor dates parse), the candidate of the A1 task at the standard pace, 23 weeks
  after the start, is past the year 9999: the loop body raises \<open>OverflowError\<close> for that
  task and the generator fails. At the aggressive pace the candidate is 19 weeks after
  the start, the generator succeeds and the A1 task is dated with its anchor date. So
  whether the milestone task resolves to its anchor date depends on the time factor.
\<close>

theorem milestone_candidate_date_can_overflow:
  "parse_param k_project_start_date (cp_project_start_date late_params) = Inr 3651908
   \<and> parse_param k_sponsor_agreement_date (cp_sponsor_agreement_date late_params) = Inr 3651922
   \<and> parse_param k_equity_reform_base_date (cp_equity_reform_base_date late_params) = Inr 3651922
   \<and> parse_param k_equity_reform_completion_date (cp_equity_reform_completion_date late_params)
       = Inr 3651978
   \<and> parse_param k_a1_submission_date (cp_a1_submission_date late_params) = Inr 3652048
   \<and> timeline_item 3651908 3651922 3651922 3651978 3652048 1
        \<lparr>t_workstream = s_ws_regulatory, t_task = s_task_a1, t_lead = s_lead_parties,
           t_week_offset = 23\<rparr>
       = Inl OverflowError
   \<and> generate_case_timeline (init_generator None) late_params = Inl OverflowError
   \<and> late_params_aggressive = late_params\<lparr>cp_project_pace := Some s_pace_aggressive\<rparr>
   \<and> map_sum id (\<lambda>(timeline, report, review). map (\<lambda>e. (e_task e, e_date e)) timeline)
        (generate_case_timeline (init_generator None) late_params_aggressive)
       = Inr [(s_task_kickoff, s_date_9999_8_2), (s_task_sponsor, s_date_9999_8_16),
              (s_task_equity_base, s_date_9999_8_16), (s_task_equity_done, s_date_9999_10_11),
              (s_task_a1, s_date_9999_12_20)]"
proof -
  have item: "timeline_item 3651908 3651922 3651922 3651978 3652048 1
        \<lparr>t_workstream = s_ws_regulatory, t_task = s_task_a1, t_lead = s_lead_parties,
           t_week_offset = 23\<rparr>
       = Inl OverflowError"
    by code_simp
  show ?thesis
    by (intro conjI)
      (rule late_dates item late_run late_run_aggressive late_params_aggressive_def)+
qed

section \<open>The order of the timeline\<close>

lemma list_all2_map_eq:
  assumes "list_all2 P xs ys" and "\<And>x y. P x y \<Longrightarrow> f y = g x"
  shows "map f ys = map g xs"
  using assms by (induction xs ys rule: list_all2_induct) simp_all

text \<open>
  C2. The timeline of a successful run is the list of the entries built from the working
  tasks in their order, sorted by the date each entry was given: the dates do not
  decrease along the timeline, entries of the same date keep the order of their tasks,
  no entry is lost or added, and the date an entry shows is the printed form of the date
  it was sorted by. The entries returned are of the type without the sort key.
\<close>

theorem timeline_is_sorted_by_date:
  assumes "generate_case_timeline self p = Inr (timeline, report, review)"
  shows "\<exists>sr tasks items sorted_items.
      dict_lookup (vr_company_structure (variation_rules self))
          (optional (cp_current_structure p) s_structure_llc) = Inr sr
    \<and> collect_tasks self sr = Inr tasks
    \<and> map e_task items = map t_task tasks
    \<and> map e_workstream items = map t_workstream tasks
    \<and> map e_lead items = map t_lead tasks
    \<and> timeline = map pop_sort_date sorted_items
    \<and> sorted (map sort_date sorted_items)
    \<and> (\<forall>d. filter (\<lambda>i. sort_date i = d) sorted_items = filter (\<lambda>i. sort_date i = d) items)
    \<and> length sorted_items = length items
    \<and> set sorted_items = set items
    \<and> (\<forall>i \<in> set sorted_items. e_date i = format_date (sort_date i))"
proof -
  from assms obtain ps sa eb ec a1 sr tasks items where
    sr: "dict_lookup (vr_company_structure (variation_rules self))
       (optional (cp_current_structure p) s_structure_llc) = Inr sr"
    and tasks: "collect_tasks self sr = Inr tasks"
    and all2: "list_all2 (\<lambda>t item. timeline_item ps sa eb ec a1
        (f_time_factor (r_features report)) t = Inr item) tasks items"
    and tl: "timeline = map pop_sort_date (sort_key sort_date items)"
    by (rule generate_case_timeline_items)
  have names: "map e_task items = map t_task tasks"
    by (rule list_all2_map_eq [OF all2]) (rule timeline_item_Inr(2))
  have streams: "map e_workstream items = map t_workstream tasks"
    by (rule list_all2_map_eq [OF all2]) (rule timeline_item_Inr(1))
  have leads: "map e_lead items = map t_lead tasks"
    by (rule list_all2_map_eq [OF all2]) (rule timeline_item_Inr(3))
  have stable: "\<forall>d. filter (\<lambda>i. sort_date i = d) (sort_key sort_date items)
      = filter (\<lambda>i. sort_date i = d) items"
    by (simp add: sort_key_stable)
  have shown: "\<forall>i \<in> set (sort_key sort_date items). e_date i = format_date (sort_date i)"
  proof (rule ballI)
    fix i
    assume "i \<in> set (sort_key sort_date items)"
    then have "i \<in> set items"
      by simp
    from list_all2_right [OF all2 this] obtain t where
      "timeline_item ps sa eb ec a1 (f_time_factor (r_features report)) t = Inr i"
      by (rule bexE)
    then show "e_date i = format_date (sort_date i)"
      by (rule timeline_item_Inr(4))
  qed
  have sorted: "sorted (map sort_date (sort_key sort_date items))"
    by (rule sorted_sort_key)
  have len: "length (sort_key sort_date items) = length items"
    and same: "set (sort_key sort_date items) = set items"
    by simp_all
  show ?thesis
    by (intro exI conjI) (rule sr tasks names streams leads tl sorted stable len same shown)+
qed

theorem timeline_is_sorted_by_date_witness:
  "generate_case_timeline (init_generator None) case1_params
     = Inr (case1_timeline, case1_report default_review, default_review)
   \<and> (\<exists>dates. sorted dates \<and> map e_date case1_timeline = map format_date dates)
   \<and> map e_date case1_timeline
       = [s_date_2025_8_4, s_date_2025_8_18, s_date_2025_8_18, s_date_2025_10_13, s_date_2026_1_12]"
proof -
  from timeline_is_sorted_by_date [OF case1_run_disabled]
  obtain sorted_items where tl: "case1_timeline = map pop_sort_date sorted_items"
    and sorted: "sorted (map sort_date sorted_items)"
    and shown: "\<forall>i \<in> set sorted_items. e_date i = format_date (sort_date i)"
    by (elim exE conjE) simp
  from shown have "map e_date case1_timeline = map format_date (map sort_date sorted_items)"
    by (simp add: tl)
  with sorted have "\<exists>dates. sorted dates \<and> map e_date case1_timeline = map format_date dates"
    by blast
  moreover have "map e_date case1_timeline
       = [s_date_2025_8_4, s_date_2025_8_18, s_date_2025_8_18, s_date_2025_10_13, s_date_2026_1_12]"
    by (simp add: case1_timeline_def)
  ultimately show ?thesis
    using case1_run_disabled by blast
qed

section \<open>The dates of the ordinary tasks\<close>

text \<open>
  C3. In a successful run every task of the working list that is not a milestone task has
  its entry in the timeline, dated (in the printed form) with the project start date plus
  as many weeks as the integer part of its week offset times the time factor, or no
  weeks when that is negative; and every entry that is not of a milestone task is dated
  so. The number of weeks is not bounded above. Such a date is never before the project
  start date.
\<close>

theorem ordinary_tasks_are_dated_from_the_start:
  assumes "generate_case_timeline self p = Inr (timeline, report, review)"
  shows "\<exists>ps sr tasks.
      parse_param k_project_start_date (cp_project_start_date p) = Inr ps
    \<and> dict_lookup (vr_company_structure (variation_rules self))
          (optional (cp_current_structure p) s_structure_llc) = Inr sr
    \<and> collect_tasks self sr = Inr tasks
    \<and> (\<forall>t \<in> set tasks. \<not> is_milestone_task (t_task t) \<longrightarrow>
          (\<exists>e \<in> set timeline. \<exists>date.
              e_task e = t_task t \<and> e_workstream e = t_workstream t \<and> e_lead e = t_lead t
            \<and> e_date e = format_date date
            \<and> date = ps + 7 * max 0 \<lfloor>float_mul (float_of_int (t_week_offset t))
                                        (f_time_factor (r_features report))\<rfloor>
            \<and> ps \<le> date))
    \<and> (\<forall>e \<in> set timeline. \<not> is_milestone_task (e_task e) \<longrightarrow>
          (\<exists>t \<in> set tasks. \<exists>date.
              e_task e = t_task t \<and> e_workstream e = t_workstream t \<and> e_lead e = t_lead t
            \<and> e_date e = format_date date
            \<and> date = ps + 7 * max 0 \<lfloor>float_mul (float_of_int (t_week_offset t))
                                        (f_time_factor (r_features report))\<rfloor>
            \<and> ps \<le> date))"
proof -
  let ?tf = "f_time_factor (r_features report)"
  from assms obtain ps sa eb ec a1 sr tasks items where
    ps: "parse_param k_project_start_date (cp_project_start_date p) = Inr ps"
    and sr: "dict_lookup (vr_company_structure (variation_rules self))
       (optional (cp_current_structure p) s_structure_llc) = Inr sr"
    and tasks: "collect_tasks self sr = Inr tasks"
    and all2: "list_all2 (\<lambda>t item. timeline_item ps sa eb ec a1 ?tf t = Inr item) tasks items"
    and tl: "timeline = map pop_sort_date (sort_key sort_date items)"
    by (rule generate_case_timeline_items)
  have dated: "e_task (pop_sort_date item) = t_task t
      \<and> e_workstream (pop_sort_date item) = t_workstream t
      \<and> e_lead (pop_sort_date item) = t_lead t
      \<and> e_date (pop_sort_date item)
          = format_date (ps + 7 * max 0 \<lfloor>float_mul (float_of_int (t_week_offset t)) ?tf\<rfloor>)
      \<and> ps + 7 * max 0 \<lfloor>float_mul (float_of_int (t_week_offset t)) ?tf\<rfloor>
          = ps + 7 * max 0 \<lfloor>float_mul (float_of_int (t_week_offset t)) ?tf\<rfloor>
      \<and> ps \<le> ps + 7 * max 0 \<lfloor>float_mul (float_of_int (t_week_offset t)) ?tf\<rfloor>"
    if item: "timeline_item ps sa eb ec a1 ?tf t = Inr item"
      and ordinary: "\<not> is_milestone_task (t_task t)" for t item
  proof -
    note facts = timeline_item_Inr [OF item]
    from ordinary have "sort_date item
        = ps + 7 * max 0 \<lfloor>float_mul (float_of_int (t_week_offset t)) ?tf\<rfloor>"
      by (intro facts(9)) (simp_all add: is_milestone_task_def)
    then show ?thesis
      by (simp add: facts(1-4))
  qed
  have from_tasks: "\<forall>t \<in> set tasks. \<not> is_milestone_task (t_task t) \<longrightarrow>
          (\<exists>e \<in> set timeline. \<exists>date.
              e_task e = t_task t \<and> e_workstream e = t_workstream t \<and> e_lead e = t_lead t
            \<and> e_date e = format_date date
            \<and> date = ps + 7 * max 0 \<lfloor>float_mul (float_of_int (t_week_offset t)) ?tf\<rfloor>
            \<and> ps \<le> date)"
  proof (intro ballI impI)
    fix t
    assume t: "t \<in> set tasks" and ordinary: "\<not> is_milestone_task (t_task t)"
    from all2 t obtain item where
      item: "timeline_item ps sa eb ec a1 ?tf t = Inr item"
      and e: "pop_sort_date item \<in> set timeline"
      unfolding tl by (rule task_has_entry)
    from e show "\<exists>e \<in> set timeline. \<exists>date.
              e_task e = t_task t \<and> e_workstream e = t_workstream t \<and> e_lead e = t_lead t
            \<and> e_date e = format_date date
            \<and> date = ps + 7 * max 0 \<lfloor>float_mul (float_of_int (t_week_offset t)) ?tf\<rfloor>
            \<and> ps \<le> date"
      by (rule bexI [rotated]) (rule exI, rule dated [OF item ordinary])
  qed
  have from_entries: "\<forall>e \<in> set timeline. \<not> is_milestone_task (e_task e) \<longrightarrow>
          (\<exists>t \<in> set tasks. \<exists>date.
              e_task e = t_task t \<and> e_workstream e = t_workstream t \<and> e_lead e = t_lead t
            \<and> e_date e = format_date date
            \<and> date = ps + 7 * max 0 \<lfloor>float_mul (float_of_int (t_week_offset t)) ?tf\<rfloor>
            \<and> ps \<le> date)"
  proof (intro ballI impI)
    fix e
    assume e_in: "e \<in> set timeline" and ordinary: "\<not> is_milestone_task (e_task e)"
    from all2 e_in obtain t item where t: "t \<in> set tasks"
      and item: "timeline_item ps sa eb ec a1 ?tf t = Inr item"
      and e: "e = pop_sort_date item"
      unfolding tl by (rule timeline_entry_origin)
    from ordinary have "\<not> is_milestone_task (t_task t)"
      by (simp add: e timeline_item_Inr(2) [OF item])
    from t show "\<exists>t \<in> set tasks. \<exists>date.
              e_task e = t_task t \<and> e_workstream e = t_workstream t \<and> e_lead e = t_lead t
            \<and> e_date e = format_date date
            \<and> date = ps + 7 * max 0 \<lfloor>float_mul (float_of_int (t_week_offset t)) ?tf\<rfloor>
            \<and> ps \<le> date"
      unfolding e
      by (rule bexI [rotated]) (rule exI, rule dated [OF item \<open>\<not> is_milestone_task (t_task t)\<close>])
  qed
  show ?thesis
    by (intro exI conjI) (rule ps sr tasks from_tasks from_entries)+
qed

theorem ordinary_tasks_are_dated_from_the_start_witness:
  "generate_case_timeline (init_generator None) case1_params
     = Inr (case1_timeline, case1_report default_review, default_review)
   \<and> parse_param k_project_start_date (cp_project_start_date case1_params) = Inr 739467
   \<and> \<not> is_milestone_task (e_task (case1_timeline ! 0))
   \<and> (\<exists>date. e_date (case1_timeline ! 0) = format_date date \<and> 739467 \<le> date)
   \<and> e_date (case1_timeline ! 0) = format_date 739467"
proof -
  from ordinary_tasks_are_dated_from_the_start [OF case1_run_disabled]
  obtain ps where ps: "parse_param k_project_start_date (cp_project_start_date case1_params) = Inr ps"
    and entries: "\<forall>e \<in> set case1_timeline. \<not> is_milestone_task (e_task e) \<longrightarrow>
          (\<exists>date. e_date e = format_date date \<and> ps \<le> date)"
    by (elim exE conjE) blast
  from ps have start: "ps = 739467"
    by (simp add: case1_dates)
  have ordinary: "\<not> is_milestone_task (e_task (case1_timeline ! 0))"
    by (simp add: case1_timeline_entries(2) builtin_milestones(5))
  from entries [THEN bspec, OF case1_timeline_entries(1), THEN mp, OF ordinary]
  have dated: "\<exists>date. e_date (case1_timeline ! 0) = format_date date \<and> 739467 \<le> date"
    by (simp add: start)
  have "e_date (case1_timeline ! 0) = format_date 739467"
    by code_simp
  with case1_run_disabled case1_dates(1) ordinary dated show ?thesis
    by (intro conjI)
qed

section \<open>The two factors\<close>

lemma generate_case_timeline_rules:
  assumes "generate_case_timeline self p = Inr (timeline, report, review)"
  obtains sr pr fr rr where
    "dict_lookup (vr_company_structure (variation_rules self))
       (optional (cp_current_structure p) s_structure_llc) = Inr sr"
    "dict_lookup (vr_project_pace (variation_rules self))
       (optional (cp_project_pace p) s_pace_standard) = Inr pr"
    "dict_lookup (vr_a1_filing_financials (variation_rules self))
       (optional (cp_a1_filing_financials p) s_fin_three) = Inr fr"
    "dict_lookup (vr_ipo_readiness (variation_rules self))
       (determine_ipo_readiness_level (optional (cp_ipo_readiness p) [])) = Inr rr"
    "f_time_factor (r_features report) = float_mul (time_compression pr) (preparation_factor rr)"
    "f_complexity_factor (r_features report)
       = float_mul (complexity_modifier sr) (audit_complexity fr)"
proof -
  from assms obtain sr and pr :: pace_rule and fr :: financial_rule and rr :: readiness_rule where
    "dict_lookup (vr_company_structure (variation_rules self))
       (optional (cp_current_structure p) s_structure_llc) = Inr sr"
    "dict_lookup (vr_project_pace (variation_rules self))
       (optional (cp_project_pace p) s_pace_standard) = Inr pr"
    "dict_lookup (vr_a1_filing_financials (variation_rules self))
       (optional (cp_a1_filing_financials p) s_fin_three) = Inr fr"
    "dict_lookup (vr_ipo_readiness (variation_rules self))
       (determine_ipo_readiness_level (optional (cp_ipo_readiness p) [])) = Inr rr"
    "f_time_factor (r_features report) = float_mul (time_compression pr) (preparation_factor rr)"
    "f_complexity_factor (r_features report)
       = float_mul (complexity_modifier sr) (audit_complexity fr)"
    unfolding generate_case_timeline_Inr_iff by (elim exE conjE) simp
  then show thesis
    by (rule that)
qed

lemma dict_lookup_in_table: "dict_lookup d k = Inr v \<Longrightarrow> v \<in> snd ` set d"
  by (auto simp: dict_lookup_def split: option.splits dest!: map_of_SomeD intro: rev_image_eqI)

lemma time_factors_positive:
  "\<forall>pr \<in> snd ` set (vr_project_pace load_variation_rules).
     \<forall>rr \<in> snd ` set (vr_ipo_readiness load_variation_rules).
       0 < float_mul (time_compression pr) (preparation_factor rr)"
  by code_simp

lemma complexity_factors_positive:
  "\<forall>sr \<in> snd ` set (vr_company_structure load_variation_rules).
     \<forall>fr \<in> snd ` set (vr_a1_filing_financials load_variation_rules).
       0 < float_mul (complexity_modifier sr) (audit_complexity fr)"
  by code_simp

text \<open>
  C5. With the built-in rule tables, in every successful run the time factor of the
  report is the floating-point product of the time compression of the pace rule and the
  preparation factor of the rule of the classified readiness level, and the complexity
  factor is the product of the complexity modifier of the structure rule and the audit
  complexity of the rule of the disclosure scope. Both are positive; indeed the product
  is positive for every pair of rules of the tables.
\<close>

theorem factors_are_positive_products:
  assumes "generate_case_timeline (init_generator c) p = Inr (timeline, report, review)"
  shows "\<exists>sr pr fr rr.
      dict_lookup (vr_company_structure load_variation_rules)
        (optional (cp_current_structure p) s_structure_llc) = Inr sr
    \<and> dict_lookup (vr_project_pace load_variation_rules)
        (optional (cp_project_pace p) s_pace_standard) = Inr pr
    \<and> dict_lookup (vr_a1_filing_financials load_variation_rules)
        (optional (cp_a1_filing_financials p) s_fin_three) = Inr fr
    \<and> dict_lookup (vr_ipo_readiness load_variation_rules)
        (determine_ipo_readiness_level (optional (cp_ipo_readiness p) [])) = Inr rr
    \<and> f_time_factor (r_features report)
        = float_mul (time_compression pr) (preparation_factor rr)
    \<and> f_complexity_factor (r_features report)
        = float_mul (complexity_modifier sr) (audit_complexity fr)
    \<and> 0 < f_time_factor (r_features report)
    \<and> 0 < f_complexity_factor (r_features report)
    \<and> (\<forall>pr \<in> snd ` set (vr_project_pace load_variation_rules).
        \<forall>rr \<in> snd ` set (vr_ipo_readiness load_variation_rules).
          0 < float_mul (time_compression pr) (preparation_factor rr))
    \<and> (\<forall>sr \<in> snd ` set (vr_company_structure load_variation_rules).
        \<forall>fr \<in> snd ` set (vr_a1_filing_financials load_variation_rules).
          0 < float_mul (complexity_modifier sr) (audit_complexity fr))"
proof -
  from assms obtain sr pr fr rr where
    sr: "dict_lookup (vr_company_structure load_variation_rules)
        (optional (cp_current_structure p) s_structure_llc) = Inr sr"
    and pr: "dict_lookup (vr_project_pace load_variation_rules)
        (optional (cp_project_pace p) s_pace_standard) = Inr pr"
    and fr: "dict_lookup (vr_a1_filing_financials load_variation_rules)
        (optional (cp_a1_filing_financials p) s_fin_three) = Inr fr"
    and rr: "dict_lookup (vr_ipo_readiness load_variation_rules)
        (determine_ipo_readiness_level (optional (cp_ipo_readiness p) [])) = Inr rr"
    and tf: "f_time_factor (r_features report)
        = float_mul (time_compression pr) (preparation_factor rr)"
    and cf: "f_complexity_factor (r_features report)
        = float_mul (complexity_modifier sr) (audit_complexity fr)"
    by (rule generate_case_timeline_rules) (simp only: init_generator_simps)
  have tpos: "0 < f_time_factor (r_features report)"
    unfolding tf
    using time_factors_positive dict_lookup_in_table [OF pr] dict_lookup_in_table [OF rr]
    by blast
  have cpos: "0 < f_complexity_factor (r_features report)"
    unfolding cf
    using complexity_factors_positive dict_lookup_in_table [OF sr] dict_lookup_in_table [OF fr]
    by blast
  show ?thesis
    by (intro exI conjI)
      (rule sr pr fr rr tf cf tpos cpos time_factors_positive complexity_factors_positive)+
qed

theorem factors_are_positive_products_witness:
  "generate_case_timeline (init_generator None) case1_params
     = Inr (case1_timeline, case1_report default_review, default_review)
   \<and> f_time_factor (r_features (case1_report default_review)) = 1
   \<and> f_complexity_factor (r_features (case1_report default_review))
       = 2476979795053773 / 2251799813685248
   \<and> 0 < f_time_factor (r_features (case1_report default_review))
   \<and> 0 < f_complexity_factor (r_features (case1_report default_review))
   \<and> 0 < float_mul (float_lit 85 2) (float_lit 9 1)"
proof -
  note t = factors_are_positive_products [OF case1_run_disabled]
  from t have pos: "0 < f_time_factor (r_features (case1_report default_review))"
    "0 < f_complexity_factor (r_features (case1_report default_review))"
    by blast+
  have vals: "f_time_factor (r_features (case1_report default_review)) = 1"
    "f_complexity_factor (r_features (case1_report default_review))
       = 2476979795053773 / 2251799813685248"
    by (simp_all add: case1_report_def)
  have "\<lparr>time_compression = float_lit 85 2, risk_level = s_risk_high\<rparr>
      \<in> snd ` set (vr_project_pace load_variation_rules)"
    "\<lparr>preparation_factor = float_lit 9 1\<rparr> \<in> snd ` set (vr_ipo_readiness load_variation_rules)"
    by (simp_all add: load_variation_rules_def image_iff)
  with t have "0 < float_mul (float_lit 85 2) (float_lit 9 1)"
    by (elim exE conjE) force
  with case1_run_disabled vals pos show ?thesis
    by (intro conjI)
qed

end
